theory Spec2Isabelle
  imports Complex_Main
begin

section \<open>Positions, displacements and the collaborators of the drivers\<close>

text \<open>
  A position or displacement is a \<^verbatim>\<open>TinyVector<RealType,3>\<close> (\<^verbatim>\<open>PosType\<close>).
  \<^verbatim>\<open>RealType\<close> is read as \<^typ>\<open>real\<close>: the drivers only scale a displacement and
  compare a draw with a threshold.
\<close>

type_synonym PosType = "real \<times> real \<times> real"

definition pos_scale :: "real \<Rightarrow> PosType \<Rightarrow> PosType" where
  "pos_scale c p = (case p of (x, y, z) \<Rightarrow> (c * x, c * y, c * z))"

definition pos_add :: "PosType \<Rightarrow> PosType \<Rightarrow> PosType" where
  "pos_add p q = (case p of (x, y, z) \<Rightarrow> (case q of (a, b, c) \<Rightarrow> (x + a, y + b, z + c)))"

text \<open>
  \<^verbatim>\<open>generate_normal(&delta[0][0], 3 * n)\<close> fills the \<open>n\<close> vectors of \<^verbatim>\<open>delta\<close> through
  one flat buffer; \<^verbatim>\<open>delta[i]\<close> is the \<open>i\<close>-th triple of that buffer.
\<close>

definition delta_at :: "real list \<Rightarrow> nat \<Rightarrow> PosType" where
  "delta_at buf i = (buf ! (3 * i), buf ! (3 * i + 1), buf ! (3 * i + 2))"

text \<open>
  The classes the drivers call are not part of the driver files. Each driver takes the
  methods it calls as parameters, grouped by class: a method that mutates its object is a
  function from the object's state to its new state.
\<close>

record 'g RandomGenerator =
  generate_uniform :: "nat \<Rightarrow> 'g \<Rightarrow> real list \<times> 'g"
  generate_normal :: "nat \<Rightarrow> 'g \<Rightarrow> real list \<times> 'g"

record 'e ParticleSet =
  getTotalNum :: "'e \<Rightarrow> nat"
  setActive :: "nat \<Rightarrow> 'e \<Rightarrow> 'e"
  makeMoveAndCheck :: "nat \<Rightarrow> PosType \<Rightarrow> 'e \<Rightarrow> bool \<times> 'e"
  acceptMove :: "nat \<Rightarrow> 'e \<Rightarrow> 'e"
  rejectMove :: "nat \<Rightarrow> 'e \<Rightarrow> 'e"
  donePbyP :: "'e \<Rightarrow> 'e"

record ('e, 'd) DiracDeterminant =
  recompute :: "'d \<Rightarrow> 'd"
  ratio :: "'e \<Rightarrow> nat \<Rightarrow> 'd \<Rightarrow> 'd"
  det_acceptMove :: "'e \<Rightarrow> nat \<Rightarrow> 'd \<Rightarrow> 'd"

section \<open>The single-walker check driver (check\_determinant.cpp)\<close>

text \<open>
  The calls the driver makes on its collaborators, in program order. The reference
  determinant and the determinant under test receive the same calls.
\<close>

datatype det_name = Reference | Device

datatype chk_call =
    Recompute det_name
  | Generate_uniform nat
  | Generate_normal nat
  | SetActive nat
  | MakeMoveAndCheck nat
  | Ratio det_name nat
  | AcceptMove_els nat
  | AcceptMove_det det_name nat
  | RejectMove nat
  | DonePbyP

text \<open>The local variables of \<^verbatim>\<open>main\<close> that the Monte Carlo loop changes.\<close>

record ('g, 'e, 'd) chk_state =
  random_th :: 'g
  chk_els :: 'e
  determinant_ref :: 'd
  determinant :: 'd
  my_accepted :: int
  chk_calls :: "chk_call list"

text \<open>
  The acceptance test of the check driver, as written at check\_determinant.cpp:470 (and
  :152): \<^verbatim>\<open>if (ur[iel] > accept)\<close>.
\<close>

definition chk_accepts :: "real \<Rightarrow> real list \<Rightarrow> nat \<Rightarrow> bool" where
  "chk_accepts accept ur iel = (ur ! iel > accept)"

text \<open>The body of the loop over \<^verbatim>\<open>iel\<close> (check\_determinant.cpp:450-485).\<close>

definition chk_electron ::
  "'e ParticleSet \<Rightarrow> ('e, 'd) DiracDeterminant \<Rightarrow> real \<Rightarrow> real \<Rightarrow> real list \<Rightarrow>
   real list \<Rightarrow> nat \<Rightarrow> ('g, 'e, 'd) chk_state \<Rightarrow> ('g, 'e, 'd) chk_state" where
  "chk_electron P D sqrttau accept ur delta iel s =
    (let e1 = setActive P iel (chk_els s);
         dr = pos_scale sqrttau (delta_at delta iel);
         mv = makeMoveAndCheck P iel dr e1;
         isValid = fst mv;
         e2 = snd mv;
         s1 = s\<lparr>chk_els := e2, chk_calls := chk_calls s @ [SetActive iel, MakeMoveAndCheck iel]\<rparr>
     in if \<not> isValid then s1
        else
          let s2 = s1\<lparr>determinant_ref := ratio D e2 iel (determinant_ref s1),
                      determinant := ratio D e2 iel (determinant s1),
                      chk_calls := chk_calls s1 @ [Ratio Reference iel, Ratio Device iel]\<rparr>
          in if chk_accepts accept ur iel
             then
               (let e3 = acceptMove P iel e2
                in s2\<lparr>chk_els := e3,
                      determinant_ref := det_acceptMove D e3 iel (determinant_ref s2),
                      determinant := det_acceptMove D e3 iel (determinant s2),
                      my_accepted := my_accepted s2 + 1,
                      chk_calls := chk_calls s2 @
                        [AcceptMove_els iel, AcceptMove_det Reference iel, AcceptMove_det Device iel]\<rparr>)
             else s2\<lparr>chk_els := rejectMove P iel e2,
                     chk_calls := chk_calls s2 @ [RejectMove iel]\<rparr>)"

text \<open>One sweep: the loop \<^verbatim>\<open>for (int iel = 0; iel < nels; ++iel)\<close>.\<close>

definition chk_sweep ::
  "'e ParticleSet \<Rightarrow> ('e, 'd) DiracDeterminant \<Rightarrow> real \<Rightarrow> real \<Rightarrow> real list \<Rightarrow>
   real list \<Rightarrow> nat \<Rightarrow> ('g, 'e, 'd) chk_state \<Rightarrow> ('g, 'e, 'd) chk_state" where
  "chk_sweep P D sqrttau accept ur delta nels s =
     fold (chk_electron P D sqrttau accept ur delta) [0..<nels] s"

text \<open>One substep: draw the displacements of all electrons, then sweep (lines 447-486).\<close>

definition chk_substep ::
  "'g RandomGenerator \<Rightarrow> 'e ParticleSet \<Rightarrow> ('e, 'd) DiracDeterminant \<Rightarrow>
   real \<Rightarrow> real \<Rightarrow> real list \<Rightarrow> nat \<Rightarrow> ('g, 'e, 'd) chk_state \<Rightarrow> ('g, 'e, 'd) chk_state" where
  "chk_substep G P D sqrttau accept ur nels s =
    (let dn = generate_normal G (3 * nels) (random_th s);
         s1 = s\<lparr>random_th := snd dn, chk_calls := chk_calls s @ [Generate_normal (3 * nels)]\<rparr>
     in chk_sweep P D sqrttau accept ur (fst dn) nels s1)"

text \<open>
  One Monte Carlo step (lines 440-489): recompute both determinants, run the substeps,
  then \<^verbatim>\<open>els.donePbyP()\<close>. \<^verbatim>\<open>nsubsteps\<close> is a C++ \<^verbatim>\<open>int\<close>; a loop
  \<^verbatim>\<open>for (l = 0; l < nsubsteps; ++l)\<close> runs \<open>nat nsubsteps\<close> times.
\<close>

definition chk_step ::
  "'g RandomGenerator \<Rightarrow> 'e ParticleSet \<Rightarrow> ('e, 'd) DiracDeterminant \<Rightarrow>
   real \<Rightarrow> real \<Rightarrow> real list \<Rightarrow> nat \<Rightarrow> int \<Rightarrow> ('g, 'e, 'd) chk_state \<Rightarrow> ('g, 'e, 'd) chk_state" where
  "chk_step G P D sqrttau accept ur nels nsubsteps s =
    (let s1 = s\<lparr>determinant_ref := recompute D (determinant_ref s),
                 determinant := recompute D (determinant s),
                 chk_calls := chk_calls s @ [Recompute Reference, Recompute Device]\<rparr>;
         s2 = ((chk_substep G P D sqrttau accept ur nels) ^^ (nat nsubsteps)) s1
     in s2\<lparr>chk_els := donePbyP P (chk_els s2), chk_calls := chk_calls s2 @ [DonePbyP]\<rparr>)"

text \<open>
  The run after set-up (lines 424-489): \<^verbatim>\<open>tau = 2.0\<close>, \<^verbatim>\<open>sqrttau = sqrt(tau)\<close>,
  \<^verbatim>\<open>accept = 0.5\<close>, the vector \<^verbatim>\<open>ur\<close> of \<^verbatim>\<open>nels\<close> uniform draws, then \<^verbatim>\<open>nsteps\<close>
  Monte Carlo steps.
\<close>

definition chk_tau :: real where
  "chk_tau = 2"

definition chk_accept :: real where
  "chk_accept = 1 / 2"

definition chk_ur :: "'g RandomGenerator \<Rightarrow> nat \<Rightarrow> ('g, 'e, 'd) chk_state \<Rightarrow> real list" where
  "chk_ur G nels s = fst (generate_uniform G nels (random_th s))"

definition chk_loop ::
  "'g RandomGenerator \<Rightarrow> 'e ParticleSet \<Rightarrow> ('e, 'd) DiracDeterminant \<Rightarrow>
   int \<Rightarrow> int \<Rightarrow> ('g, 'e, 'd) chk_state \<Rightarrow> ('g, 'e, 'd) chk_state" where
  "chk_loop G P D nsteps nsubsteps s =
    (let nels = getTotalNum P (chk_els s);
         ur = chk_ur G nels s;
         s1 = s\<lparr>random_th := snd (generate_uniform G nels (random_th s)),
                 chk_calls := chk_calls s @ [Generate_uniform nels]\<rparr>
     in ((chk_step G P D (sqrt chk_tau) chk_accept ur nels nsubsteps) ^^ (nat nsteps)) s1)"

section \<open>The batched driver (miniqmc\_sync\_move\_noref.cpp)\<close>

text \<open>
  A \<^verbatim>\<open>Mover\<close> owns a random stream, a particle set, a wavefunction, the buffers
  the orbital evaluation writes (\<^verbatim>\<open>psi\<close>, \<^verbatim>\<open>grad\<close>, \<^verbatim>\<open>hess\<close>) and a
  pseudopotential object.
\<close>

record ('g, 'e, 'w, 'v, 'n) Mover =
  rng :: 'g
  els :: 'e
  wavefunction :: 'w
  spo_vgh :: 'v
  nlpp :: 'n

text \<open>
  The batched methods take lists of pointers to the walkers' objects and mutate the
  objects they point to. A pointer list is a list of indices into \<^verbatim>\<open>mover_list\<close>;
  a batched method is a function from the listed objects to their new states, and the
  driver stores the results back at the same indices.
\<close>

record 'e ParticleSet_multi =
  multi_setActiveKokkos :: "'e list \<Rightarrow> nat \<Rightarrow> 'e list"
  multi_makeMoveAndCheckKokkos :: "'e list \<Rightarrow> PosType list \<Rightarrow> nat \<Rightarrow> int list \<times> 'e list"
  multi_acceptRejectMoveKokkos :: "'e list \<Rightarrow> bool list \<Rightarrow> nat \<Rightarrow> 'e list"
  multi_donePbyP :: "'e list \<Rightarrow> 'e list"
  multi_getTotalNum :: "'e \<Rightarrow> nat"
  UnlikeDT_extent1 :: "'e \<Rightarrow> nat"
  UnlikeDTDistances :: "'e \<Rightarrow> nat \<Rightarrow> nat \<Rightarrow> real"

record ('e, 'w, 'v) WaveFunction_multi =
  multi_evalGrad :: "'w list \<Rightarrow> 'e list \<Rightarrow> nat \<Rightarrow> 'w list"
  multi_evaluate_vgh :: "'e list \<Rightarrow> nat \<Rightarrow> 'v list \<Rightarrow> 'v list"
  multi_ratioGrad :: "'w list \<Rightarrow> 'e list \<Rightarrow> nat \<Rightarrow> 'w list"
  multi_acceptrestoreMove :: "'w list \<Rightarrow> 'e list \<Rightarrow> bool list \<Rightarrow> nat \<Rightarrow> 'w list"
  multi_evaluateGL :: "'w list \<Rightarrow> 'e list \<Rightarrow> 'w list"

definition extract_els_list :: "nat list \<Rightarrow> ('g, 'e, 'w, 'v, 'n) Mover list \<Rightarrow> 'e list" where
  "extract_els_list ids ms = map (\<lambda>i. els (ms ! i)) ids"

definition extract_wf_list :: "nat list \<Rightarrow> ('g, 'e, 'w, 'v, 'n) Mover list \<Rightarrow> 'w list" where
  "extract_wf_list ids ms = map (\<lambda>i. wavefunction (ms ! i)) ids"

definition extract_spo_list :: "nat list \<Rightarrow> ('g, 'e, 'w, 'v, 'n) Mover list \<Rightarrow> 'v list" where
  "extract_spo_list ids ms = map (\<lambda>i. spo_vgh (ms ! i)) ids"

definition store_els ::
  "nat list \<Rightarrow> 'e list \<Rightarrow> ('g, 'e, 'w, 'v, 'n) Mover list \<Rightarrow> ('g, 'e, 'w, 'v, 'n) Mover list" where
  "store_els ids es ms = fold (\<lambda>ie m. m[fst ie := (m ! fst ie)\<lparr>els := snd ie\<rparr>]) (zip ids es) ms"

definition store_wf ::
  "nat list \<Rightarrow> 'w list \<Rightarrow> ('g, 'e, 'w, 'v, 'n) Mover list \<Rightarrow> ('g, 'e, 'w, 'v, 'n) Mover list" where
  "store_wf ids ws ms =
     fold (\<lambda>iw m. m[fst iw := (m ! fst iw)\<lparr>wavefunction := snd iw\<rparr>]) (zip ids ws) ms"

definition store_spo ::
  "nat list \<Rightarrow> 'v list \<Rightarrow> ('g, 'e, 'w, 'v, 'n) Mover list \<Rightarrow> ('g, 'e, 'w, 'v, 'n) Mover list" where
  "store_spo ids vs ms = fold (\<lambda>iv m. m[fst iv := (m ! fst iv)\<lparr>spo_vgh := snd iv\<rparr>]) (zip ids vs) ms"

text \<open>
  \<^verbatim>\<open>filtered_list(mover_list, isValid)\<close>: the walkers whose entry of the mask is
  non-zero, in walker order.
\<close>

definition filtered_list :: "nat \<Rightarrow> int list \<Rightarrow> nat list" where
  "filtered_list nmovers isValid = filter (\<lambda>iw. isValid ! iw \<noteq> 0) [0..<nmovers]"

text \<open>
  The calls of the batched driver on the walkers' objects. A call on a pointer list
  records the walkers it lists; a call on \<^verbatim>\<open>P_list\<close>, \<^verbatim>\<open>WF_list\<close> or
  \<^verbatim>\<open>allParticleSetData\<close> reaches every walker.
\<close>

datatype sync_call =
    Multi_setActiveKokkos nat
  | Multi_evalGrad nat
  | Multi_makeMoveAndCheckKokkos nat
  | Multi_evaluate_vgh "nat list" nat
  | Multi_ratioGrad "nat list" nat
  | Multi_acceptrestoreMove "nat list" "bool list" nat
  | Multi_acceptRejectMoveKokkos "nat list" "bool list" nat
  | Multi_donePbyP
  | Multi_evaluateGL
  | Nlpp_randomize nat
  | UpdateTempPosAndRs nat
  | Multi_evaluate_v nat
  | Multi_ratio nat

record ('g, 'e, 'w, 'v, 'n) sync_state =
  mover_list :: "('g, 'e, 'w, 'v, 'n) Mover list"
  sync_calls :: "sync_call list"

text \<open>
  Lines 476-503: make electron \<^verbatim>\<open>iel\<close> active in every walker, evaluate the current
  gradients, draw \<^verbatim>\<open>ur\<close> (\<^verbatim>\<open>nmovers\<close> uniforms) and \<^verbatim>\<open>delta\<close>
  (\<^verbatim>\<open>3 * nmovers\<close> normals) from the stream of walker 0, and propose a move in every
  walker. The result is \<^verbatim>\<open>ur\<close>, the mask \<^verbatim>\<open>isValid\<close> and the new state.
\<close>

definition sync_all :: "('g, 'e, 'w, 'v, 'n) Mover list \<Rightarrow> nat list" where
  "sync_all ms = [0..<length ms]"

definition sync_propose ::
  "'g RandomGenerator \<Rightarrow> 'e ParticleSet_multi \<Rightarrow> ('e, 'w, 'v) WaveFunction_multi \<Rightarrow> real \<Rightarrow> nat \<Rightarrow>
   ('g, 'e, 'w, 'v, 'n) sync_state \<Rightarrow> real list \<times> int list \<times> ('g, 'e, 'w, 'v, 'n) sync_state" where
  "sync_propose G P W sqrttau iel st =
    (let ms0 = mover_list st;
         nmovers = length ms0;
         ms1 = store_els (sync_all ms0)
                 (multi_setActiveKokkos P (extract_els_list (sync_all ms0) ms0) iel) ms0;
         ms2 = store_wf (sync_all ms1)
                 (multi_evalGrad W (extract_wf_list (sync_all ms1) ms1)
                    (extract_els_list (sync_all ms1) ms1) iel) ms1;
         u = generate_uniform G nmovers (rng (ms2 ! 0));
         n = generate_normal G (3 * nmovers) (snd u);
         ms3 = ms2[0 := (ms2 ! 0)\<lparr>rng := snd n\<rparr>];
         dr = map (\<lambda>iw. pos_scale sqrttau (delta_at (fst n) iw)) [0..<nmovers];
         mv = multi_makeMoveAndCheckKokkos P (extract_els_list (sync_all ms3) ms3) dr iel;
         ms4 = store_els (sync_all ms3) (snd mv) ms3
     in (fst u, fst mv,
         st\<lparr>mover_list := ms4,
            sync_calls := sync_calls st @
              [Multi_setActiveKokkos iel, Multi_evalGrad iel, Multi_makeMoveAndCheckKokkos iel]\<rparr>))"

text \<open>
  Lines 521-555: when some walker has a valid move, evaluate the orbitals and the ratios
  of the walkers of the valid list.
\<close>

definition sync_ratio ::
  "'e ParticleSet_multi \<Rightarrow> ('e, 'w, 'v) WaveFunction_multi \<Rightarrow> nat \<Rightarrow> nat list \<Rightarrow>
   ('g, 'e, 'w, 'v, 'n) sync_state \<Rightarrow> ('g, 'e, 'w, 'v, 'n) sync_state" where
  "sync_ratio P W iel ids st =
    (if ids = [] then st
     else
       let ms0 = mover_list st;
           ms1 = store_spo ids
                   (multi_evaluate_vgh W (extract_els_list ids ms0) iel (extract_spo_list ids ms0)) ms0;
           ms2 = store_wf ids
                   (multi_ratioGrad W (extract_wf_list ids ms1) (extract_els_list ids ms1) iel) ms1
       in st\<lparr>mover_list := ms2,
             sync_calls := sync_calls st @ [Multi_evaluate_vgh ids iel, Multi_ratioGrad ids iel]\<rparr>)"

text \<open>
  Lines 559-563: \<^verbatim>\<open>isAccepted\<close> has one entry per walker of the valid list, and entry
  \<^verbatim>\<open>iw\<close> is \<^verbatim>\<open>ur[iw] < accept\<close>.
\<close>

definition sync_isAccepted :: "real \<Rightarrow> real list \<Rightarrow> nat \<Rightarrow> bool list" where
  "sync_isAccepted accept ur n = map (\<lambda>iw. ur ! iw < accept) [0..<n]"

text \<open>Lines 565-575: update the wavefunctions, then the positions, of the valid list.\<close>

definition sync_update ::
  "'e ParticleSet_multi \<Rightarrow> ('e, 'w, 'v) WaveFunction_multi \<Rightarrow> nat \<Rightarrow> nat list \<Rightarrow> bool list \<Rightarrow>
   ('g, 'e, 'w, 'v, 'n) sync_state \<Rightarrow> ('g, 'e, 'w, 'v, 'n) sync_state" where
  "sync_update P W iel ids isAccepted st =
    (let ms0 = mover_list st;
         ms1 = store_wf ids
                 (multi_acceptrestoreMove W (extract_wf_list ids ms0) (extract_els_list ids ms0)
                    isAccepted iel) ms0;
         ms2 = store_els ids
                 (multi_acceptRejectMoveKokkos P (extract_els_list ids ms1) isAccepted iel) ms1
     in st\<lparr>mover_list := ms2,
           sync_calls := sync_calls st @
             [Multi_acceptrestoreMove ids isAccepted iel,
              Multi_acceptRejectMoveKokkos ids isAccepted iel]\<rparr>)"

text \<open>The body of the loop over \<^verbatim>\<open>iel\<close> (lines 473-576).\<close>

definition sync_valid_ids ::
  "'g RandomGenerator \<Rightarrow> 'e ParticleSet_multi \<Rightarrow> ('e, 'w, 'v) WaveFunction_multi \<Rightarrow> real \<Rightarrow> nat \<Rightarrow>
   ('g, 'e, 'w, 'v, 'n) sync_state \<Rightarrow> nat list" where
  "sync_valid_ids G P W sqrttau iel st =
     filtered_list (length (mover_list st)) (fst (snd (sync_propose G P W sqrttau iel st)))"

definition sync_flags ::
  "'g RandomGenerator \<Rightarrow> 'e ParticleSet_multi \<Rightarrow> ('e, 'w, 'v) WaveFunction_multi \<Rightarrow> real \<Rightarrow> real \<Rightarrow>
   nat \<Rightarrow> ('g, 'e, 'w, 'v, 'n) sync_state \<Rightarrow> bool list" where
  "sync_flags G P W sqrttau accept iel st =
     sync_isAccepted accept (fst (sync_propose G P W sqrttau iel st))
       (length (sync_valid_ids G P W sqrttau iel st))"

definition sync_electron ::
  "'g RandomGenerator \<Rightarrow> 'e ParticleSet_multi \<Rightarrow> ('e, 'w, 'v) WaveFunction_multi \<Rightarrow> real \<Rightarrow> real \<Rightarrow>
   nat \<Rightarrow> ('g, 'e, 'w, 'v, 'n) sync_state \<Rightarrow> ('g, 'e, 'w, 'v, 'n) sync_state" where
  "sync_electron G P W sqrttau accept iel st =
    (let ids = sync_valid_ids G P W sqrttau iel st;
         st1 = snd (snd (sync_propose G P W sqrttau iel st));
         st2 = sync_ratio P W iel ids st1
     in sync_update P W iel ids (sync_flags G P W sqrttau accept iel st) st2)"

definition sync_sweep ::
  "'g RandomGenerator \<Rightarrow> 'e ParticleSet_multi \<Rightarrow> ('e, 'w, 'v) WaveFunction_multi \<Rightarrow> real \<Rightarrow> real \<Rightarrow>
   nat \<Rightarrow> ('g, 'e, 'w, 'v, 'n) sync_state \<Rightarrow> ('g, 'e, 'w, 'v, 'n) sync_state" where
  "sync_sweep G P W sqrttau accept nels st =
     fold (sync_electron G P W sqrttau accept) [0..<nels] st"

text \<open>
  The pseudopotential phase (lines 586-697). \<^verbatim>\<open>FindNumEiPairs\<close> counts, for one
  walker, the electron-ion pairs closer than \<^verbatim>\<open>Rmax\<close>; \<^verbatim>\<open>maxSize\<close> is the largest
  count; \<^verbatim>\<open>SetupEiLists\<close> first writes the electron index -1 into all \<^verbatim>\<open>maxSize\<close>
  slots of a walker's pair list and then stores the walker's pairs from slot 0 on. The
  ion index of a slot is the zero a new view holds until a pair is stored there.
\<close>

definition FindNumEiPairs :: "'e ParticleSet_multi \<Rightarrow> real \<Rightarrow> 'e \<Rightarrow> nat" where
  "FindNumEiPairs P locRmax e =
     fold (\<lambda>elNum pairSum.
             fold (\<lambda>atnum n. if UnlikeDTDistances P e elNum atnum < locRmax then n + 1 else n)
               [0..<UnlikeDT_extent1 P e] pairSum)
       [0..<multi_getTotalNum P e] 0"

definition ecp_maxSize :: "nat list \<Rightarrow> nat" where
  "ecp_maxSize EiPairs = fold (\<lambda>n maxSize. if n > maxSize then n else maxSize) EiPairs 0"

definition SetupEiLists :: "'e ParticleSet_multi \<Rightarrow> real \<Rightarrow> nat \<Rightarrow> 'e \<Rightarrow> (int \<times> int) list" where
  "SetupEiLists P locRmax maxSize e =
     fst (fold (\<lambda>elNum acc.
                  fold (\<lambda>atNum a.
                          if UnlikeDTDistances P e elNum atNum < locRmax
                          then ((fst a)[snd a := (int elNum, int atNum)], snd a + 1)
                          else a)
                    [0..<UnlikeDT_extent1 P e] acc)
            [0..<multi_getTotalNum P e]
            (replicate maxSize (- 1, 0), 0))"

text \<open>
  The methods the pair loop calls. They receive handles to the data of all walkers
  (\<^verbatim>\<open>allParticleSetData\<close>, \<^verbatim>\<open>WF_list\<close>), the pair lists, the quadrature points and
  the temporary views (\<^verbatim>\<open>bigElPos\<close>, \<^verbatim>\<open>bigLikeTempR\<close>, \<^verbatim>\<open>bigUnlikeTempR\<close>,
  \<^verbatim>\<open>tempPsiV\<close>: one value of type \<open>'b\<close>), and \<^verbatim>\<open>multi_ratio\<close> the vector
  \<^verbatim>\<open>ratios\<close>; each returns what it may have written.
\<close>

record ('e, 'w, 'n, 'b) NonLocalPP =
  nlpp_size :: "'n \<Rightarrow> nat"
  randomize :: "'n \<Rightarrow> nat \<Rightarrow> PosType list"
  new_views :: "nat \<Rightarrow> nat \<Rightarrow> nat \<Rightarrow> nat \<Rightarrow> 'b"
  updateTempPosAndRs ::
    "nat \<Rightarrow> 'e list \<Rightarrow> (int \<times> int) list list \<Rightarrow> PosType list list \<Rightarrow> 'b \<Rightarrow> 'e list \<times> 'b"
  multi_evaluate_v :: "'b \<Rightarrow> 'e list \<Rightarrow> 'e list \<times> 'b"
  multi_ratio ::
    "nat \<Rightarrow> 'w list \<Rightarrow> 'e list \<Rightarrow> 'b \<Rightarrow> (int \<times> int) list list \<Rightarrow> real list \<Rightarrow>
     'w list \<times> 'e list \<times> 'b \<times> real list"

record ('g, 'e, 'w, 'v, 'n, 'b) ecp_state =
  ecp_views :: 'b
  ecp_ratios :: "real list"
  ecp_sync :: "('g, 'e, 'w, 'v, 'n) sync_state"

text \<open>The body of the loop over \<^verbatim>\<open>eiPair\<close> (lines 676-697).\<close>

definition sync_ecp_pair ::
  "('e, 'w, 'n, 'b) NonLocalPP \<Rightarrow> (int \<times> int) list list \<Rightarrow> PosType list list \<Rightarrow> nat \<Rightarrow>
   ('g, 'e, 'w, 'v, 'n, 'b) ecp_state \<Rightarrow> ('g, 'e, 'w, 'v, 'n, 'b) ecp_state" where
  "sync_ecp_pair E EiLists rOnSphere eiPair x =
    (let st = ecp_sync x;
         ms0 = mover_list st;
         up = updateTempPosAndRs E eiPair (extract_els_list (sync_all ms0) ms0) EiLists rOnSphere
                (ecp_views x);
         ms1 = store_els (sync_all ms0) (fst up) ms0;
         ev = multi_evaluate_v E (snd up) (extract_els_list (sync_all ms1) ms1);
         ms2 = store_els (sync_all ms1) (fst ev) ms1;
         mr = multi_ratio E eiPair (extract_wf_list (sync_all ms2) ms2)
                (extract_els_list (sync_all ms2) ms2) (snd ev) EiLists (ecp_ratios x);
         ms3 = store_els (sync_all ms2) (fst (snd mr)) (store_wf (sync_all ms2) (fst mr) ms2)
     in \<lparr>ecp_views = fst (snd (snd mr)),
         ecp_ratios = snd (snd (snd mr)),
         ecp_sync = st\<lparr>mover_list := ms3,
                       sync_calls := sync_calls st @
                         [UpdateTempPosAndRs eiPair, Multi_evaluate_v eiPair, Multi_ratio eiPair]\<rparr>\<rparr>)"

definition sync_EiPairs ::
  "'e ParticleSet_multi \<Rightarrow> real \<Rightarrow> ('g, 'e, 'w, 'v, 'n) Mover list \<Rightarrow> nat list" where
  "sync_EiPairs P Rmax ms = map (\<lambda>walkerNum. FindNumEiPairs P Rmax (els (ms ! walkerNum))) (sync_all ms)"

definition sync_EiLists ::
  "'e ParticleSet_multi \<Rightarrow> real \<Rightarrow> ('g, 'e, 'w, 'v, 'n) Mover list \<Rightarrow> (int \<times> int) list list" where
  "sync_EiLists P Rmax ms =
     map (\<lambda>walkerNum. SetupEiLists P Rmax (ecp_maxSize (sync_EiPairs P Rmax ms)) (els (ms ! walkerNum)))
       (sync_all ms)"

text \<open>
  The whole phase: pair counts, pair lists, one set of quadrature points per walker
  (\<^verbatim>\<open>randomize\<close> on a copy of the walker's \<^verbatim>\<open>nlpp\<close>), new views, \<^verbatim>\<open>ratios\<close> with
  \<^verbatim>\<open>nmovers * nknots\<close> entries 0.0, then the loop over \<^verbatim>\<open>eiPair\<close> up to
  \<^verbatim>\<open>maxSize\<close>.
\<close>

definition sync_ecp ::
  "'e ParticleSet_multi \<Rightarrow> ('e, 'w, 'n, 'b) NonLocalPP \<Rightarrow> real \<Rightarrow> nat \<Rightarrow> nat \<Rightarrow> nat \<Rightarrow>
   ('g, 'e, 'w, 'v, 'n) sync_state \<Rightarrow> ('g, 'e, 'w, 'v, 'n, 'b) ecp_state" where
  "sync_ecp P E Rmax nknots nels nions st =
    (let ms = mover_list st;
         nmovers = length ms;
         maxSize = ecp_maxSize (sync_EiPairs P Rmax ms);
         EiLists = sync_EiLists P Rmax ms;
         rOnSphere = map (\<lambda>walkerNum. randomize E (nlpp (ms ! walkerNum)) nknots) (sync_all ms);
         x0 = \<lparr>ecp_views = new_views E nmovers nknots nels nions,
               ecp_ratios = replicate (nmovers * nknots) 0,
               ecp_sync = st\<lparr>sync_calls := sync_calls st @ map Nlpp_randomize (sync_all ms)\<rparr>\<rparr>
     in fold (sync_ecp_pair E EiLists rOnSphere) [0..<maxSize] x0)"

text \<open>
  One Monte Carlo step (lines 457-699): \<^verbatim>\<open>nsubsteps\<close> sweeps, then
  \<^verbatim>\<open>multi_donePbyP\<close> and \<^verbatim>\<open>multi_evaluateGL\<close>, then the pseudopotential phase.
\<close>

definition sync_finalize ::
  "'e ParticleSet_multi \<Rightarrow> ('e, 'w, 'v) WaveFunction_multi \<Rightarrow>
   ('g, 'e, 'w, 'v, 'n) sync_state \<Rightarrow> ('g, 'e, 'w, 'v, 'n) sync_state" where
  "sync_finalize P W st =
    (let ms0 = mover_list st;
         ms1 = store_els (sync_all ms0) (multi_donePbyP P (extract_els_list (sync_all ms0) ms0)) ms0;
         ms2 = store_wf (sync_all ms1)
                 (multi_evaluateGL W (extract_wf_list (sync_all ms1) ms1)
                    (extract_els_list (sync_all ms1) ms1)) ms1
     in st\<lparr>mover_list := ms2, sync_calls := sync_calls st @ [Multi_donePbyP, Multi_evaluateGL]\<rparr>)"

definition sync_step ::
  "'g RandomGenerator \<Rightarrow> 'e ParticleSet_multi \<Rightarrow> ('e, 'w, 'v) WaveFunction_multi \<Rightarrow>
   ('e, 'w, 'n, 'b) NonLocalPP \<Rightarrow> real \<Rightarrow> real \<Rightarrow> real \<Rightarrow> nat \<Rightarrow> nat \<Rightarrow> nat \<Rightarrow> int \<Rightarrow>
   ('g, 'e, 'w, 'v, 'n) sync_state \<Rightarrow> ('g, 'e, 'w, 'v, 'n) sync_state" where
  "sync_step G P W E sqrttau accept Rmax nknots nels nions nsubsteps st =
     ecp_sync (sync_ecp P E Rmax nknots nels nions
       (sync_finalize P W (((sync_sweep G P W sqrttau accept nels) ^^ (nat nsubsteps)) st)))"

text \<open>
  The synchronous walker moves (lines 411-700). \<^verbatim>\<open>mover_list[0]\<close> is read whatever
  \<^verbatim>\<open>nmovers\<close> is: with no walker the run has no defined behaviour, which is the result
  \<open>None\<close>.
\<close>

definition sync_tau :: real where
  "sync_tau = 2"

definition sync_loop ::
  "'g RandomGenerator \<Rightarrow> 'e ParticleSet_multi \<Rightarrow> ('e, 'w, 'v) WaveFunction_multi \<Rightarrow>
   ('e, 'w, 'n, 'b) NonLocalPP \<Rightarrow> real \<Rightarrow> real \<Rightarrow> nat \<Rightarrow> int \<Rightarrow> int \<Rightarrow>
   ('g, 'e, 'w, 'v, 'n) sync_state \<Rightarrow> ('g, 'e, 'w, 'v, 'n) sync_state option" where
  "sync_loop G P W E accept Rmax nions nsteps nsubsteps st =
    (case mover_list st of
       [] \<Rightarrow> None
     | m0 # _ \<Rightarrow>
         Some (((sync_step G P W E (sqrt sync_tau) accept Rmax (nlpp_size E (nlpp m0))
                   (multi_getTotalNum P (els m0)) nions nsubsteps) ^^ (nat nsteps)) st))"

section \<open>The crowd driver (MiniqmcDriverFunctions.hpp)\<close>









section \<open>Command lines and set-up\<close>

text \<open>
  \<^verbatim>\<open>getopt\<close>, \<^verbatim>\<open>atoi\<close>, \<^verbatim>\<open>atof\<close> and \<^verbatim>\<open>sscanf\<close> belong to the C library: an
  option is given by its letter and its parsed argument, a command line by the list of
  its options. With no option the loop \<^verbatim>\<open>while (optind < argc)\<close> does not run.
\<close>

datatype outcome = Exit int | Never_returns | Undefined_behaviour

datatype chk_option =
    Chk_g int int int
  | Chk_h
  | Chk_n int
  | Chk_N int
  | Chk_r
  | Chk_s int
  | Chk_v
  | Chk_V
  | Chk_unknown
  | Chk_non_option

record chk_options =
  chk_na :: int
  chk_nb :: int
  chk_nc :: int
  chk_nsteps :: int
  chk_iseed :: int
  chk_nsubsteps :: int
  chk_verbose :: bool

text \<open>The initial values of check\_determinant.cpp:329-339.\<close>

definition chk_defaults :: chk_options where
  "chk_defaults =
     \<lparr>chk_na = 1, chk_nb = 1, chk_nc = 1, chk_nsteps = 5, chk_iseed = 11, chk_nsubsteps = 1,
      chk_verbose = False\<rparr>"

text \<open>
  The \<^verbatim>\<open>switch\<close> of lines 346-372. \<^verbatim>\<open>print_help\<close> of the check driver ends the
  process with \<^verbatim>\<open>exit(1)\<close>; the letter \<^verbatim>\<open>r\<close> is accepted by \<^verbatim>\<open>getopt\<close> and has
  no case of its own.
\<close>

fun chk_switch :: "chk_option \<Rightarrow> chk_options \<Rightarrow> outcome + chk_options" where
  "chk_switch (Chk_g a b c) opts = Inr (opts\<lparr>chk_na := a, chk_nb := b, chk_nc := c\<rparr>)"
| "chk_switch Chk_h opts = Inl (Exit 1)"
| "chk_switch (Chk_n n) opts = Inr (opts\<lparr>chk_nsteps := n\<rparr>)"
| "chk_switch (Chk_N n) opts = Inr (opts\<lparr>chk_nsubsteps := n\<rparr>)"
| "chk_switch (Chk_s n) opts = Inr (opts\<lparr>chk_iseed := n\<rparr>)"
| "chk_switch Chk_v opts = Inr (opts\<lparr>chk_verbose := True\<rparr>)"
| "chk_switch Chk_V opts = Inl (Exit 1)"
| "chk_switch Chk_r opts = Inl (Exit 1)"
| "chk_switch Chk_unknown opts = Inl (Exit 1)"
| "chk_switch Chk_non_option opts = Inl (Exit 1)"

fun chk_getopt :: "chk_option list \<Rightarrow> chk_options \<Rightarrow> outcome + chk_options" where
  "chk_getopt [] opts = Inr opts"
| "chk_getopt (x # xs) opts =
     (case chk_switch x opts of Inl e \<Rightarrow> Inl e | Inr opts' \<Rightarrow> chk_getopt xs opts')"

text \<open>
  \<^verbatim>\<open>main\<close> of the check driver (lines 317-489): parse the command line, create the
  generator of thread \<^verbatim>\<open>ip\<close> from \<^verbatim>\<open>myPrimes[ip]\<close>, build the electrons and the two
  determinants from it (\<open>setup\<close>: \<^verbatim>\<open>build_els\<close>, \<^verbatim>\<open>update\<close> and the constructors, which
  are not part of the driver file), and run the Monte Carlo loop. The result is the state
  after the loop.
\<close>

definition chk_initial ::
  "(nat \<Rightarrow> nat) \<Rightarrow> (nat \<Rightarrow> 'g) \<Rightarrow> (int \<times> int \<times> int \<Rightarrow> 'g \<Rightarrow> 'g \<times> 'e \<times> 'd \<times> 'd) \<Rightarrow> nat \<Rightarrow>
   chk_options \<Rightarrow> ('g, 'e, 'd) chk_state" where
  "chk_initial myPrimes new_generator setup ip opts =
    (let b = setup (chk_na opts, chk_nb opts, chk_nc opts) (new_generator (myPrimes ip))
     in \<lparr>random_th = fst b, chk_els = fst (snd b), determinant_ref = fst (snd (snd b)),
         determinant = snd (snd (snd b)), my_accepted = 0, chk_calls = []\<rparr>)"

definition chk_main ::
  "'g RandomGenerator \<Rightarrow> 'e ParticleSet \<Rightarrow> ('e, 'd) DiracDeterminant \<Rightarrow> (nat \<Rightarrow> nat) \<Rightarrow> (nat \<Rightarrow> 'g) \<Rightarrow>
   (int \<times> int \<times> int \<Rightarrow> 'g \<Rightarrow> 'g \<times> 'e \<times> 'd \<times> 'd) \<Rightarrow> nat \<Rightarrow> chk_option list \<Rightarrow>
   outcome + ('g, 'e, 'd) chk_state" where
  "chk_main G P D myPrimes new_generator setup ip argv =
    (case chk_getopt argv chk_defaults of
       Inl e \<Rightarrow> Inl e
     | Inr opts \<Rightarrow>
         Inr (chk_loop G P D (chk_nsteps opts) (chk_nsubsteps opts)
                (chk_initial myPrimes new_generator setup ip opts)))"

datatype sync_option =
    Sync_a int
  | Sync_c int
  | Sync_g int int int
  | Sync_h
  | Sync_j
  | Sync_m real
  | Sync_n int
  | Sync_N int
  | Sync_r real
  | Sync_s int
  | Sync_t string
  | Sync_v
  | Sync_V
  | Sync_w int
  | Sync_x real
  | Sync_unknown
  | Sync_non_option

record sync_options =
  sync_na :: int
  sync_nb :: int
  sync_nc :: int
  sync_nsteps :: int
  sync_iseed :: int
  sync_nx :: int
  sync_ny :: int
  sync_nz :: int
  sync_nmovers :: int
  sync_tileSize :: int
  sync_team_size :: int
  sync_nsubsteps :: int
  sync_Rmax :: real
  sync_accept :: real
  sync_enableJ3 :: bool
  sync_verbose :: bool
  sync_timer_level_name :: string

text \<open>The initial values of miniqmc\_sync\_move\_noref.cpp:193-212.\<close>

definition sync_defaults :: sync_options where
  "sync_defaults =
     \<lparr>sync_na = 1, sync_nb = 1, sync_nc = 1, sync_nsteps = 5, sync_iseed = 11,
      sync_nx = 37, sync_ny = 37, sync_nz = 37, sync_nmovers = 1, sync_tileSize = - 1,
      sync_team_size = 1, sync_nsubsteps = 1, sync_Rmax = 17 / 10, sync_accept = 1 / 2,
      sync_enableJ3 = False, sync_verbose = False, sync_timer_level_name = ''fine''\<rparr>"

text \<open>\<^verbatim>\<open>nx *= meshfactor\<close> converts the product back to \<^verbatim>\<open>int\<close>, towards zero.\<close>

definition times_meshfactor :: "int \<Rightarrow> real \<Rightarrow> int" where
  "times_meshfactor n meshfactor =
     (if 0 \<le> real_of_int n * meshfactor then \<lfloor>real_of_int n * meshfactor\<rfloor>
      else \<lceil>real_of_int n * meshfactor\<rceil>)"

text \<open>
  The \<^verbatim>\<open>switch\<close> of lines 224-287. Here \<^verbatim>\<open>print_help\<close> returns, so an argument that
  is not an option is reported again and again: \<^verbatim>\<open>optind\<close> never passes it.
\<close>

fun sync_switch :: "sync_option \<Rightarrow> sync_options \<Rightarrow> outcome + sync_options" where
  "sync_switch (Sync_a n) opts = Inr (opts\<lparr>sync_tileSize := n\<rparr>)"
| "sync_switch (Sync_c n) opts = Inr (opts\<lparr>sync_team_size := n\<rparr>)"
| "sync_switch (Sync_g a b c) opts = Inr (opts\<lparr>sync_na := a, sync_nb := b, sync_nc := c\<rparr>)"
| "sync_switch Sync_h opts = Inl (Exit 1)"
| "sync_switch Sync_j opts = Inr (opts\<lparr>sync_enableJ3 := True\<rparr>)"
| "sync_switch (Sync_m f) opts =
     Inr (opts\<lparr>sync_nx := times_meshfactor (sync_nx opts) f,
               sync_ny := times_meshfactor (sync_ny opts) f,
               sync_nz := times_meshfactor (sync_nz opts) f\<rparr>)"
| "sync_switch (Sync_n n) opts = Inr (opts\<lparr>sync_nsteps := n\<rparr>)"
| "sync_switch (Sync_N n) opts = Inr (opts\<lparr>sync_nsubsteps := n\<rparr>)"
| "sync_switch (Sync_r a) opts = Inr (opts\<lparr>sync_accept := a\<rparr>)"
| "sync_switch (Sync_s n) opts = Inr (opts\<lparr>sync_iseed := n\<rparr>)"
| "sync_switch (Sync_t name) opts = Inr (opts\<lparr>sync_timer_level_name := name\<rparr>)"
| "sync_switch Sync_v opts = Inr (opts\<lparr>sync_verbose := True\<rparr>)"
| "sync_switch Sync_V opts = Inl (Exit 1)"
| "sync_switch (Sync_w n) opts = Inr (opts\<lparr>sync_nmovers := n\<rparr>)"
| "sync_switch (Sync_x r) opts = Inr (opts\<lparr>sync_Rmax := r\<rparr>)"
| "sync_switch Sync_unknown opts = Inl (Exit 1)"
| "sync_switch Sync_non_option opts = Inl Never_returns"

fun sync_getopt :: "sync_option list \<Rightarrow> sync_options \<Rightarrow> outcome + sync_options" where
  "sync_getopt [] opts = Inr opts"
| "sync_getopt (x # xs) opts =
     (case sync_switch x opts of Inl e \<Rightarrow> Inl e | Inr opts' \<Rightarrow> sync_getopt xs opts')"

text \<open>
  Lines 327-408: walker \<^verbatim>\<open>iw\<close> is created from \<^verbatim>\<open>myPrimes[iw]\<close>, the ions (built
  from the tiling) and the orbital set (built from the mesh and the tile size), and its
  wavefunction is built with or without the three-body Jastrow (\<open>new_mover\<close>: the
  constructor of \<^verbatim>\<open>Mover\<close>, \<^verbatim>\<open>build_WaveFunction\<close> and \<^verbatim>\<open>update\<close>);
  \<open>evaluateLog\<close> is the initial \<^verbatim>\<open>multi_evaluateLog\<close>.
\<close>

definition sync_initial ::
  "(nat \<Rightarrow> nat) \<Rightarrow>
   (int \<times> int \<times> int \<Rightarrow> int \<times> int \<times> int \<Rightarrow> int \<Rightarrow> bool \<Rightarrow> nat \<Rightarrow> ('g, 'e, 'w, 'v, 'n) Mover) \<Rightarrow>
   (('g, 'e, 'w, 'v, 'n) Mover list \<Rightarrow> ('g, 'e, 'w, 'v, 'n) Mover list) \<Rightarrow> sync_options \<Rightarrow>
   ('g, 'e, 'w, 'v, 'n) sync_state" where
  "sync_initial myPrimes new_mover evaluateLog opts =
     \<lparr>mover_list =
        evaluateLog
          (map (\<lambda>iw. new_mover (sync_na opts, sync_nb opts, sync_nc opts)
                        (sync_nx opts, sync_ny opts, sync_nz opts) (sync_tileSize opts)
                        (sync_enableJ3 opts) (myPrimes iw))
             [0..<nat (sync_nmovers opts)]),
      sync_calls = []\<rparr>"

definition sync_main ::
  "'g RandomGenerator \<Rightarrow> 'e ParticleSet_multi \<Rightarrow> ('e, 'w, 'v) WaveFunction_multi \<Rightarrow>
   ('e, 'w, 'n, 'b) NonLocalPP \<Rightarrow> (nat \<Rightarrow> nat) \<Rightarrow>
   (int \<times> int \<times> int \<Rightarrow> int \<times> int \<times> int \<Rightarrow> int \<Rightarrow> bool \<Rightarrow> nat \<Rightarrow> ('g, 'e, 'w, 'v, 'n) Mover) \<Rightarrow>
   (('g, 'e, 'w, 'v, 'n) Mover list \<Rightarrow> ('g, 'e, 'w, 'v, 'n) Mover list) \<Rightarrow> (int \<times> int \<times> int \<Rightarrow> nat) \<Rightarrow>
   sync_option list \<Rightarrow> outcome + ('g, 'e, 'w, 'v, 'n) sync_state" where
  "sync_main G P W E myPrimes new_mover evaluateLog count_ions argv =
    (case sync_getopt argv sync_defaults of
       Inl e \<Rightarrow> Inl e
     | Inr opts \<Rightarrow>
         if sync_timer_level_name opts \<noteq> ''coarse'' \<and> sync_timer_level_name opts \<noteq> ''fine''
         then Inl (Exit 1)
         else
           (case sync_loop G P W E (sync_accept opts) (sync_Rmax opts)
                   (count_ions (sync_na opts, sync_nb opts, sync_nc opts))
                   (sync_nsteps opts) (sync_nsubsteps opts)
                   (sync_initial myPrimes new_mover evaluateLog opts) of
              None \<Rightarrow> Inl Undefined_behaviour
            | Some st \<Rightarrow> Inr st))"

section \<open>Collaborators modelled from the spec\<close>

text \<open>
  The particle set, the Slater matrix with its inverse and the pseudopotential methods
  are not among the source files. The definitions of this section follow the spec
  (sections 3, 4.1, 4.2, 4.4 and 6); the orbital oracle, the geometry and the matrix
  inversion are parameters.
\<close>

text \<open>
  Modelled from the spec: the state of \<^verbatim>\<open>ParticleSet\<close> (not in the sources). The
  committed positions, the active electron, the trial position of the active electron
  (a transient value, section 3) and the table of electron-ion distances.
\<close>

record particles =
  R :: "PosType list"
  activePtcl :: int
  activePos :: PosType
  dist_ei :: "real list list"

text \<open>
  Modelled from the spec: the geometry interface of section 6 (not in the sources):
  \<^verbatim>\<open>applyBoundary(position) -> (wrappedPosition, isValid)\<close> and the distances of a
  position to the ions; \<open>quadrature_point\<close> places an electron on the sphere around an ion
  in the direction of a unit vector (section 4.4).
\<close>

record geometry =
  applyBoundary :: "PosType \<Rightarrow> PosType \<times> bool"
  distancesTo :: "PosType \<Rightarrow> real list"
  quadrature_point :: "PosType \<Rightarrow> nat \<Rightarrow> PosType \<Rightarrow> PosType"

text \<open>
  Modelled from the spec: the methods of \<^verbatim>\<open>ParticleSet\<close> (not in the sources), after
  section 4.2. A proposal adds the displacement to the current position of the electron
  and applies the boundary; acceptance commits the trial position; rejection keeps the
  position the electron had before the proposal.
\<close>

definition spec_makeMoveAndCheck :: "geometry \<Rightarrow> nat \<Rightarrow> PosType \<Rightarrow> particles \<Rightarrow> bool \<times> particles" where
  "spec_makeMoveAndCheck geo iel dr p =
    (let b = applyBoundary geo (pos_add (R p ! iel) dr)
     in (snd b, p\<lparr>activePtcl := int iel, activePos := fst b\<rparr>))"

definition spec_acceptMove :: "geometry \<Rightarrow> nat \<Rightarrow> particles \<Rightarrow> particles" where
  "spec_acceptMove geo iel p =
     p\<lparr>R := (R p)[iel := activePos p],
       dist_ei := (dist_ei p)[iel := distancesTo geo (activePos p)],
       activePtcl := - 1\<rparr>"

definition spec_rejectMove :: "nat \<Rightarrow> particles \<Rightarrow> particles" where
  "spec_rejectMove iel p = p\<lparr>activePtcl := - 1\<rparr>"

definition spec_ParticleSet :: "geometry \<Rightarrow> particles ParticleSet" where
  "spec_ParticleSet geo =
     \<lparr>getTotalNum = (\<lambda>p. length (R p)),
      setActive = (\<lambda>iel p. p\<lparr>activePtcl := int iel\<rparr>),
      makeMoveAndCheck = spec_makeMoveAndCheck geo,
      acceptMove = spec_acceptMove geo,
      rejectMove = spec_rejectMove,
      donePbyP = (\<lambda>p. p\<lparr>activePtcl := - 1\<rparr>)\<rparr>"

text \<open>
  Modelled from the spec: the Slater matrix of section 4.1 (\<^verbatim>\<open>DiracDeterminant\<close> and
  the determinant part of \<^verbatim>\<open>WaveFunction\<close> are not in the sources). \<open>psiM\<close> holds one
  row of orbital values per electron, \<open>psiMinv\<close> the inverse as a list of columns,
  \<open>psiV\<close> the candidate row of the trial move and \<open>curRatio\<close> its ratio.
\<close>

record slater =
  psiM :: "real list list"
  psiMinv :: "real list list"
  psiV :: "real list"
  curRatio :: real

definition dot :: "real list \<Rightarrow> real list \<Rightarrow> real" where
  "dot xs ys = sum_list (map2 (*) xs ys)"

text \<open>
  Modelled from the spec: \<^verbatim>\<open>evaluateRatioAndGradient\<close> of section 4.1. The candidate
  row comes from the orbital oracle; the ratio is its product with the column of the
  inverse that belongs to the electron. Matrix and inverse are not touched.
\<close>

definition evaluateRatioAndGradient :: "(PosType \<Rightarrow> real list) \<Rightarrow> nat \<Rightarrow> PosType \<Rightarrow> slater \<Rightarrow> slater" where
  "evaluateRatioAndGradient oracle iel pos d =
     d\<lparr>psiV := oracle pos, curRatio := dot (oracle pos) (psiMinv d ! iel)\<rparr>"

text \<open>
  Modelled from the spec: \<^verbatim>\<open>commitAcceptedMove\<close> of section 4.1: every column but the
  pivot column has the pivot column subtracted, scaled by the product of the candidate row
  with that column over the ratio; the pivot column is divided by the ratio; the stored
  row of the matrix is replaced.
\<close>

definition commitAcceptedMove :: "nat \<Rightarrow> slater \<Rightarrow> slater" where
  "commitAcceptedMove iel d =
     d\<lparr>psiMinv :=
         map (\<lambda>j. if j = iel then map (\<lambda>x. x / curRatio d) (psiMinv d ! iel)
                  else map2 (\<lambda>x pv. x - dot (psiV d) (psiMinv d ! j) / curRatio d * pv)
                         (psiMinv d ! j) (psiMinv d ! iel))
           [0..<length (psiMinv d)],
       psiM := (psiM d)[iel := psiV d]\<rparr>"

text \<open>Modelled from the spec: \<^verbatim>\<open>discardMove\<close> of section 4.1 drops the candidate row.\<close>

definition discardMove :: "slater \<Rightarrow> slater" where
  "discardMove d = d\<lparr>psiV := []\<rparr>"

text \<open>
  Modelled from the spec: \<^verbatim>\<open>recompute\<close> of section 4.1, the inverse by direct
  factorization (\<open>invert\<close>) of the matrix of the current rows.
\<close>

definition spec_DiracDeterminant ::
  "(PosType \<Rightarrow> real list) \<Rightarrow> (real list list \<Rightarrow> real list list) \<Rightarrow> (particles, slater) DiracDeterminant" where
  "spec_DiracDeterminant oracle invert =
     \<lparr>recompute = (\<lambda>d. d\<lparr>psiMinv := invert (psiM d)\<rparr>),
      ratio = (\<lambda>e iel d. evaluateRatioAndGradient oracle iel (activePos e) d),
      det_acceptMove = (\<lambda>e iel d. commitAcceptedMove iel d)\<rparr>"

text \<open>
  Modelled from the spec: the batched methods (not in the sources), after section 4.3:
  each does for every listed walker what the single-walker method does.
\<close>

definition spec_ParticleSet_multi :: "geometry \<Rightarrow> particles ParticleSet_multi" where
  "spec_ParticleSet_multi geo =
     \<lparr>multi_setActiveKokkos = (\<lambda>es iel. map (\<lambda>p. p\<lparr>activePtcl := int iel\<rparr>) es),
      multi_makeMoveAndCheckKokkos =
        (\<lambda>es dr iel.
           (map2 (\<lambda>p d. if fst (spec_makeMoveAndCheck geo iel d p) then 1 else 0) es dr,
            map2 (\<lambda>p d. snd (spec_makeMoveAndCheck geo iel d p)) es dr)),
      multi_acceptRejectMoveKokkos =
        (\<lambda>es isAccepted iel.
           map2 (\<lambda>p a. if a then spec_acceptMove geo iel p else spec_rejectMove iel p) es isAccepted),
      multi_donePbyP = map (\<lambda>p. p\<lparr>activePtcl := - 1\<rparr>),
      multi_getTotalNum = (\<lambda>p. length (R p)),
      UnlikeDT_extent1 = (\<lambda>p. case dist_ei p of [] \<Rightarrow> 0 | row # _ \<Rightarrow> length row),
      UnlikeDTDistances = (\<lambda>p elNum atNum. dist_ei p ! elNum ! atNum)\<rparr>"

definition spec_WaveFunction_multi ::
  "(PosType \<Rightarrow> real list) \<Rightarrow> (particles, slater, real list) WaveFunction_multi" where
  "spec_WaveFunction_multi oracle =
     \<lparr>multi_evalGrad = (\<lambda>ws es iel. ws),
      multi_evaluate_vgh = (\<lambda>es iel vs. map (\<lambda>p. oracle (activePos p)) es),
      multi_ratioGrad =
        (\<lambda>ws es iel. map2 (\<lambda>d p. evaluateRatioAndGradient oracle iel (activePos p) d) ws es),
      multi_acceptrestoreMove =
        (\<lambda>ws es isAccepted iel.
           map2 (\<lambda>d a. if a then commitAcceptedMove iel d else discardMove d) ws isAccepted),
      multi_evaluateGL = (\<lambda>ws es. ws)\<rparr>"





section \<open>Reading the call logs\<close>

text \<open>The calls a piece of a driver added to the log it started from.\<close>

definition new_calls :: "'c list \<Rightarrow> 'c list \<Rightarrow> 'c list" where
  "new_calls old new = drop (length old) new"















text \<open>
  The committed state of a walker: the positions of its electrons, its Slater matrix and
  the maintained inverse. The check driver keeps two determinants.
\<close>

definition chk_committed ::
  "('g, particles, slater) chk_state \<Rightarrow>
   PosType list \<times> real list list \<times> real list list \<times> real list list \<times> real list list" where
  "chk_committed s =
     (R (chk_els s), psiM (determinant_ref s), psiMinv (determinant_ref s),
      psiM (determinant s), psiMinv (determinant s))"

definition committed ::
  "('g, particles, slater, 'v, 'n) Mover \<Rightarrow> PosType list \<times> real list list \<times> real list list" where
  "committed m = (R (els m), psiM (wavefunction m), psiMinv (wavefunction m))"

text \<open>The walkers whose entry of \<^verbatim>\<open>isAccepted\<close> is true in an electron step.\<close>

definition sync_accepted ::
  "'g RandomGenerator \<Rightarrow> 'e ParticleSet_multi \<Rightarrow> ('e, 'w, 'v) WaveFunction_multi \<Rightarrow> real \<Rightarrow> real \<Rightarrow>
   nat \<Rightarrow> ('g, 'e, 'w, 'v, 'n) sync_state \<Rightarrow> nat list" where
  "sync_accepted G P W sqrttau accept iel st =
     map fst (filter snd (zip (sync_valid_ids G P W sqrttau iel st)
                              (sync_flags G P W sqrttau accept iel st)))"



section \<open>Concrete inputs\<close>

text \<open>
  A generator that replays a recorded sequence of draws, a geometry in which a position
  is valid when its first coordinate is below 1, an oracle with two orbitals, and a walker
  with two electrons.
\<close>

definition scripted_generator :: "real list RandomGenerator" where
  "scripted_generator =
     \<lparr>generate_uniform = (\<lambda>n g. (take n g, drop n g)),
      generate_normal = (\<lambda>n g. (take n g, drop n g))\<rparr>"

definition demo_geometry :: geometry where
  "demo_geometry =
     \<lparr>applyBoundary = (\<lambda>p. (p, fst p < 1)),
      distancesTo = (\<lambda>p. [\<bar>fst p\<bar>]),
      quadrature_point = (\<lambda>p ion u. pos_add p u)\<rparr>"

definition demo_oracle :: "PosType \<Rightarrow> real list" where
  "demo_oracle p = [1, fst p]"

definition demo_particles :: particles where
  "demo_particles =
     \<lparr>R = [(0, 0, 0), (1 / 2, 0, 0)], activePtcl = - 1, activePos = (0, 0, 0),
      dist_ei = [[0], [1 / 2]]\<rparr>"

definition demo_slater :: slater where
  "demo_slater = \<lparr>psiM = [[1, 0], [0, 1]], psiMinv = [[1, 0], [0, 1]], psiV = [], curRatio = 1\<rparr>"

definition demo_chk_state :: "real list \<Rightarrow> (real list, particles, slater) chk_state" where
  "demo_chk_state draws =
     \<lparr>random_th = draws, chk_els = demo_particles, determinant_ref = demo_slater,
      determinant = demo_slater, my_accepted = 0, chk_calls = []\<rparr>"

text \<open>Two walkers for the batched driver; \<open>x\<close> is the first coordinate of electron 0.\<close>

definition demo_mover ::
  "real list \<Rightarrow> real \<Rightarrow> (real list, particles, slater, real list, PosType list) Mover" where
  "demo_mover draws x =
     \<lparr>rng = draws, els = demo_particles\<lparr>R := [(x, 0, 0), (1 / 2, 0, 0)]\<rparr>,
      wavefunction = demo_slater, spo_vgh = [], nlpp = [(1, 0, 0)]\<rparr>"

definition demo_sync_state ::
  "real list \<Rightarrow> real list \<Rightarrow> real \<Rightarrow> real \<Rightarrow>
   (real list, particles, slater, real list, PosType list) sync_state" where
  "demo_sync_state draws0 draws1 x0 x1 =
     \<lparr>mover_list = [demo_mover draws0 x0, demo_mover draws1 x1], sync_calls = []\<rparr>"





section \<open>Blocks of calls\<close>











subsection \<open>The calls of one electron step\<close>


lemma sync_propose_calls:
  "sync_calls (snd (snd (sync_propose G P W sqrttau iel st))) =
     sync_calls st @ [Multi_setActiveKokkos iel, Multi_evalGrad iel, Multi_makeMoveAndCheckKokkos iel]"
  by (simp add: sync_propose_def Let_def)

lemma sync_ratio_calls:
  "sync_calls (sync_ratio P W iel ids st) =
     sync_calls st @ (if ids = [] then [] else [Multi_evaluate_vgh ids iel, Multi_ratioGrad ids iel])"
  by (simp add: sync_ratio_def Let_def)

lemma sync_update_calls:
  "sync_calls (sync_update P W iel ids fl st) =
     sync_calls st @ [Multi_acceptrestoreMove ids fl iel, Multi_acceptRejectMoveKokkos ids fl iel]"
  by (simp add: sync_update_def Let_def)

lemma sync_electron_calls:
  "sync_calls (sync_electron G P W sqrttau accept iel st) =
     sync_calls st @
       [Multi_setActiveKokkos iel, Multi_evalGrad iel, Multi_makeMoveAndCheckKokkos iel] @
       (if sync_valid_ids G P W sqrttau iel st = [] then []
        else [Multi_evaluate_vgh (sync_valid_ids G P W sqrttau iel st) iel,
              Multi_ratioGrad (sync_valid_ids G P W sqrttau iel st) iel]) @
       [Multi_acceptrestoreMove (sync_valid_ids G P W sqrttau iel st)
          (sync_flags G P W sqrttau accept iel st) iel,
        Multi_acceptRejectMoveKokkos (sync_valid_ids G P W sqrttau iel st)
          (sync_flags G P W sqrttau accept iel st) iel]"
  by (simp add: sync_electron_def Let_def sync_update_calls sync_ratio_calls sync_propose_calls)






subsection \<open>Walkers outside a pointer list\<close>

lemma fold_upd_length:
  "length (fold (\<lambda>p m. m[fst p := g p m]) ps ms) = length ms"
  by (induction ps arbitrary: ms) auto

lemma fold_upd_other:
  "w \<notin> fst ` set ps \<Longrightarrow> fold (\<lambda>p m. m[fst p := g p m]) ps ms ! w = ms ! w"
  by (induction ps arbitrary: ms) auto

lemma zip_fst_notin: "w \<notin> set ids \<Longrightarrow> w \<notin> fst ` set (zip ids xs)"
  by (auto dest: set_zip_leftD)

lemma store_els_other: "w \<notin> set ids \<Longrightarrow> store_els ids es ms ! w = ms ! w"
  unfolding store_els_def by (rule fold_upd_other) (rule zip_fst_notin)

lemma store_wf_other: "w \<notin> set ids \<Longrightarrow> store_wf ids ws ms ! w = ms ! w"
  unfolding store_wf_def by (rule fold_upd_other) (rule zip_fst_notin)

lemma store_spo_other: "w \<notin> set ids \<Longrightarrow> store_spo ids vs ms ! w = ms ! w"
  unfolding store_spo_def by (rule fold_upd_other) (rule zip_fst_notin)

lemma store_els_length [simp]: "length (store_els ids es ms) = length ms"
  unfolding store_els_def by (rule fold_upd_length)

lemma store_wf_length [simp]: "length (store_wf ids ws ms) = length ms"
  unfolding store_wf_def by (rule fold_upd_length)

lemma store_spo_length [simp]: "length (store_spo ids vs ms) = length ms"
  unfolding store_spo_def by (rule fold_upd_length)

lemma sync_ratio_other:
  "w \<notin> set ids \<Longrightarrow> mover_list (sync_ratio P W iel ids st) ! w = mover_list st ! w"
  by (simp add: sync_ratio_def Let_def store_wf_other store_spo_other)

lemma sync_update_other:
  "w \<notin> set ids \<Longrightarrow> mover_list (sync_update P W iel ids fl st) ! w = mover_list st ! w"
  by (simp add: sync_update_def Let_def store_wf_other store_els_other)

lemma filtered_list_invalid: "isValid ! w = 0 \<Longrightarrow> w \<notin> set (filtered_list n isValid)"
  by (simp add: filtered_list_def)

lemma sync_flags_length:
  "length (sync_flags G P W sqrttau accept iel st) = length (sync_valid_ids G P W sqrttau iel st)"
  by (simp add: sync_flags_def sync_isAccepted_def)

lemma chk_electron_invalid:
  assumes "\<not> fst (makeMoveAndCheck P iel (pos_scale sqrttau (delta_at delta iel))
                   (setActive P iel (chk_els s)))"
  shows "chk_electron P D sqrttau accept ur delta iel s =
           s\<lparr>chk_els := snd (makeMoveAndCheck P iel (pos_scale sqrttau (delta_at delta iel))
                               (setActive P iel (chk_els s))),
             chk_calls := chk_calls s @ [SetActive iel, MakeMoveAndCheck iel]\<rparr>"
  using assms by (simp add: chk_electron_def Let_def)

subsection \<open>Properties of every call of a run\<close>








subsection \<open>The phases of a Monte Carlo step\<close>


























subsection \<open>The draws of the batched driver\<close>






subsection \<open>Rejected proposals under the collaborators of the spec\<close>


lemma spec_valid_R:
  "R p = R q \<Longrightarrow> fst (spec_makeMoveAndCheck geo iel dr p) = fst (spec_makeMoveAndCheck geo iel dr q)"
  by (simp add: spec_makeMoveAndCheck_def Let_def)

lemma chk_electron_rejected:
  assumes "\<not> (fst (spec_makeMoveAndCheck geo iel (pos_scale sqrttau (delta_at delta iel)) (chk_els s)) \<and>
             chk_accepts accept ur iel)"
  shows "chk_committed (chk_electron (spec_ParticleSet geo) (spec_DiracDeterminant orbitals invert)
           sqrttau accept ur delta iel s) = chk_committed s"
proof -
  have v: "fst (spec_makeMoveAndCheck geo iel (pos_scale sqrttau (delta_at delta iel))
                 (chk_els s\<lparr>activePtcl := int iel\<rparr>)) =
           fst (spec_makeMoveAndCheck geo iel (pos_scale sqrttau (delta_at delta iel)) (chk_els s))"
    by (rule spec_valid_R) simp
  show ?thesis
    using assms v
    by (auto simp: chk_electron_def chk_committed_def Let_def spec_ParticleSet_def
        spec_DiracDeterminant_def spec_makeMoveAndCheck_def spec_rejectMove_def
        evaluateRatioAndGradient_def)
qed

lemma chk_committed_R: "chk_committed s = chk_committed s' \<Longrightarrow> R (chk_els s) = R (chk_els s')"
  by (simp add: chk_committed_def)

lemma chk_rejected_fold:
  assumes "\<forall>delta\<in>set deltas.
      \<not> (fst (spec_makeMoveAndCheck geo iel (pos_scale sqrttau (delta_at delta iel)) (chk_els s)) \<and>
         chk_accepts accept ur iel)"
  shows "chk_committed (fold (\<lambda>delta. chk_electron (spec_ParticleSet geo)
            (spec_DiracDeterminant orbitals invert) sqrttau accept ur delta iel) deltas s) =
         chk_committed s"
  using assms
proof (induction deltas arbitrary: s)
  case Nil
  show ?case by simp
next
  case (Cons delta deltas)
  let ?s1 = "chk_electron (spec_ParticleSet geo) (spec_DiracDeterminant orbitals invert)
               sqrttau accept ur delta iel s"
  have one: "chk_committed ?s1 = chk_committed s"
    using Cons.prems by (intro chk_electron_rejected) simp
  then have Req: "R (chk_els ?s1) = R (chk_els s)" by (rule chk_committed_R)
  have "\<forall>d\<in>set deltas.
      \<not> (fst (spec_makeMoveAndCheck geo iel (pos_scale sqrttau (delta_at d iel)) (chk_els ?s1)) \<and>
         chk_accepts accept ur iel)"
    using Cons.prems spec_valid_R[OF Req] by simp
  then have "chk_committed (fold (\<lambda>delta. chk_electron (spec_ParticleSet geo)
            (spec_DiracDeterminant orbitals invert) sqrttau accept ur delta iel) deltas ?s1) =
         chk_committed ?s1"
    by (rule Cons.IH)
  with one show ?case by simp
qed




lemma fold_upd_pred:
  assumes "w < length ms" and "Q (ms ! w)"
    and "\<And>m p. p \<in> set ps \<Longrightarrow> fst p = w \<Longrightarrow> Q m \<Longrightarrow> Q (upd m (snd p))"
  shows "Q (fold (\<lambda>p m. m[fst p := upd (m ! fst p) (snd p)]) ps ms ! w)"
  using assms
proof (induction ps arbitrary: ms)
  case Nil
  then show ?case by simp
next
  case (Cons p ps)
  let ?m1 = "ms[fst p := upd (ms ! fst p) (snd p)]"
  have "Q (?m1 ! w)"
  proof (cases "fst p = w")
    case True
    then show ?thesis using Cons.prems by simp
  next
    case False
    then show ?thesis using Cons.prems(2) by simp
  qed
  moreover have "w < length ?m1" using Cons.prems(1) by simp
  ultimately have "Q (fold (\<lambda>p m. m[fst p := upd (m ! fst p) (snd p)]) ps ?m1 ! w)"
    using Cons.prems(3) by (intro Cons.IH) auto
  then show ?case by simp
qed

lemma store_els_committed:
  assumes "w < length ms"
    and "\<And>k. k < length ids \<Longrightarrow> k < length es \<Longrightarrow> ids ! k = w \<Longrightarrow> R (es ! k) = R (els (ms ! w))"
  shows "committed (store_els ids es ms ! w) = committed (ms ! w)"
  unfolding store_els_def
proof (rule fold_upd_pred[where Q = "\<lambda>m. committed m = committed (ms ! w)"])
  show "w < length ms" by (rule assms(1))
  show "committed (ms ! w) = committed (ms ! w)" by simp
next
  fix m :: "('a, particles, slater, 'b, 'c) Mover" and p
  assume p: "p \<in> set (zip ids es)" and w: "fst p = w" and m: "committed m = committed (ms ! w)"
  from p obtain k where k: "k < length ids" "k < length es" "p = (ids ! k, es ! k)"
    by (auto simp: set_zip)
  then have "R (snd p) = R (els (ms ! w))" using assms(2)[of k] w by simp
  then show "committed (m\<lparr>els := snd p\<rparr>) = committed (ms ! w)"
    using m by (simp add: committed_def)
qed

lemma store_wf_committed:
  assumes "w < length ms"
    and "\<And>k. k < length ids \<Longrightarrow> k < length ws \<Longrightarrow> ids ! k = w \<Longrightarrow>
           psiM (ws ! k) = psiM (wavefunction (ms ! w)) \<and>
           psiMinv (ws ! k) = psiMinv (wavefunction (ms ! w))"
  shows "committed (store_wf ids ws ms ! w) = committed (ms ! w)"
  unfolding store_wf_def
proof (rule fold_upd_pred[where Q = "\<lambda>m. committed m = committed (ms ! w)"])
  show "w < length ms" by (rule assms(1))
  show "committed (ms ! w) = committed (ms ! w)" by simp
next
  fix m :: "('a, particles, slater, 'b, 'c) Mover" and p
  assume p: "p \<in> set (zip ids ws)" and w: "fst p = w" and m: "committed m = committed (ms ! w)"
  from p obtain k where k: "k < length ids" "k < length ws" "p = (ids ! k, ws ! k)"
    by (auto simp: set_zip)
  then have "psiM (snd p) = psiM (wavefunction (ms ! w)) \<and>
      psiMinv (snd p) = psiMinv (wavefunction (ms ! w))" using assms(2)[of k] w by simp
  then show "committed (m\<lparr>wavefunction := snd p\<rparr>) = committed (ms ! w)"
    using m by (simp add: committed_def)
qed

lemma store_spo_committed:
  assumes "w < length ms"
  shows "committed (store_spo ids vs ms ! w) = committed (ms ! w)"
  unfolding store_spo_def
  by (rule fold_upd_pred[where Q = "\<lambda>m. committed m = committed (ms ! w)"])
     (simp_all add: assms committed_def)

lemma extract_els_nth: "k < length ids \<Longrightarrow> extract_els_list ids ms ! k = els (ms ! (ids ! k))"
  by (simp add: extract_els_list_def)

lemma extract_wf_nth: "k < length ids \<Longrightarrow> extract_wf_list ids ms ! k = wavefunction (ms ! (ids ! k))"
  by (simp add: extract_wf_list_def)

lemma extract_els_length [simp]: "length (extract_els_list ids ms) = length ids"
  by (simp add: extract_els_list_def)

lemma extract_wf_length [simp]: "length (extract_wf_list ids ms) = length ids"
  by (simp add: extract_wf_list_def)

lemma spec_propose_committed:
  assumes "w < length (mover_list st)"
  shows "committed (mover_list (snd (snd (sync_propose G (spec_ParticleSet_multi geo)
           (spec_WaveFunction_multi orbitals) sqrttau iel st))) ! w) = committed (mover_list st ! w)"
proof -
  let ?P = "spec_ParticleSet_multi geo"
  let ?W = "spec_WaveFunction_multi orbitals"
  let ?ms0 = "mover_list st"
  let ?ms1 = "store_els (sync_all ?ms0)
                 (multi_setActiveKokkos ?P (extract_els_list (sync_all ?ms0) ?ms0) iel) ?ms0"
  let ?ms2 = "store_wf (sync_all ?ms1)
                 (multi_evalGrad ?W (extract_wf_list (sync_all ?ms1) ?ms1)
                    (extract_els_list (sync_all ?ms1) ?ms1) iel) ?ms1"
  let ?u = "generate_uniform G (length ?ms0) (rng (?ms2 ! 0))"
  let ?n = "generate_normal G (3 * length ?ms0) (snd ?u)"
  let ?ms3 = "?ms2[0 := (?ms2 ! 0)\<lparr>rng := snd ?n\<rparr>]"
  let ?dr = "map (\<lambda>iw. pos_scale sqrttau (delta_at (fst ?n) iw)) [0..<length ?ms0]"
  let ?mv = "multi_makeMoveAndCheckKokkos ?P (extract_els_list (sync_all ?ms3) ?ms3) ?dr iel"
  let ?ms4 = "store_els (sync_all ?ms3) (snd ?mv) ?ms3"
  have c1: "committed (?ms1 ! w) = committed (?ms0 ! w)"
    by (rule store_els_committed[OF assms])
       (simp add: spec_ParticleSet_multi_def extract_els_nth)
  have l1: "w < length ?ms1" using assms by simp
  have c2: "committed (?ms2 ! w) = committed (?ms1 ! w)"
    by (rule store_wf_committed[OF l1])
       (simp add: spec_WaveFunction_multi_def extract_wf_nth)
  have l2: "w < length ?ms2" using l1 by simp
  have c3: "committed (?ms3 ! w) = committed (?ms2 ! w)"
    using l2 by (cases w) (simp_all add: committed_def)
  have l3: "w < length ?ms3" using l2 by simp
  have c4: "committed (?ms4 ! w) = committed (?ms3 ! w)"
  proof (rule store_els_committed[OF l3])
    fix k assume k: "k < length (sync_all ?ms3)" "k < length (snd ?mv)" "sync_all ?ms3 ! k = w"
    then have "snd ?mv ! k =
        snd (spec_makeMoveAndCheck geo iel (?dr ! k) (extract_els_list (sync_all ?ms3) ?ms3 ! k))"
      by (simp add: spec_ParticleSet_multi_def)
    then show "R (snd ?mv ! k) = R (els (?ms3 ! w))"
      using k by (simp add: spec_makeMoveAndCheck_def Let_def extract_els_nth)
  qed
  have "mover_list (snd (snd (sync_propose G ?P ?W sqrttau iel st))) = ?ms4"
    by (simp add: sync_propose_def Let_def)
  then show ?thesis using c1 c2 c3 c4 by simp
qed

lemma sync_propose_length [simp]:
  "length (mover_list (snd (snd (sync_propose G P W sqrttau iel st)))) = length (mover_list st)"
  by (simp add: sync_propose_def Let_def)

lemma sync_ratio_length [simp]:
  "length (mover_list (sync_ratio P W iel ids st)) = length (mover_list st)"
  by (simp add: sync_ratio_def Let_def)

lemma sync_update_length [simp]:
  "length (mover_list (sync_update P W iel ids fl st)) = length (mover_list st)"
  by (simp add: sync_update_def Let_def)

lemma sync_electron_length [simp]:
  "length (mover_list (sync_electron G P W sqrttau accept iel st)) = length (mover_list st)"
  by (simp add: sync_electron_def Let_def)

lemma spec_ratio_committed:
  assumes "w < length (mover_list st)"
  shows "committed (mover_list (sync_ratio (spec_ParticleSet_multi geo)
           (spec_WaveFunction_multi orbitals) iel ids st) ! w) = committed (mover_list st ! w)"
proof (cases "ids = []")
  case True
  then show ?thesis by (simp add: sync_ratio_def)
next
  case False
  let ?P = "spec_ParticleSet_multi geo"
  let ?W = "spec_WaveFunction_multi orbitals"
  let ?ms0 = "mover_list st"
  let ?ms1 = "store_spo ids
                 (multi_evaluate_vgh ?W (extract_els_list ids ?ms0) iel (extract_spo_list ids ?ms0)) ?ms0"
  let ?ws = "multi_ratioGrad ?W (extract_wf_list ids ?ms1) (extract_els_list ids ?ms1) iel"
  let ?ms2 = "store_wf ids ?ws ?ms1"
  have c1: "committed (?ms1 ! w) = committed (?ms0 ! w)"
    by (rule store_spo_committed[OF assms])
  have l1: "w < length ?ms1" using assms by simp
  have c2: "committed (?ms2 ! w) = committed (?ms1 ! w)"
  proof (rule store_wf_committed[OF l1])
    fix k assume k: "k < length ids" "k < length ?ws" "ids ! k = w"
    then have "?ws ! k = evaluateRatioAndGradient orbitals iel
        (activePos (extract_els_list ids ?ms1 ! k)) (extract_wf_list ids ?ms1 ! k)"
      by (simp add: spec_WaveFunction_multi_def)
    then show "psiM (?ws ! k) = psiM (wavefunction (?ms1 ! w)) \<and>
        psiMinv (?ws ! k) = psiMinv (wavefunction (?ms1 ! w))"
      using k by (simp add: evaluateRatioAndGradient_def extract_wf_nth)
  qed
  have "mover_list (sync_ratio ?P ?W iel ids st) = ?ms2"
    using False by (simp add: sync_ratio_def Let_def)
  then show ?thesis using c1 c2 by simp
qed

lemma spec_update_committed:
  assumes "w < length (mover_list st)"
    and "w \<notin> set (map fst (filter snd (zip ids fl)))"
  shows "committed (mover_list (sync_update (spec_ParticleSet_multi geo)
           (spec_WaveFunction_multi orbitals) iel ids fl st) ! w) = committed (mover_list st ! w)"
proof -
  let ?P = "spec_ParticleSet_multi geo"
  let ?W = "spec_WaveFunction_multi orbitals"
  let ?ms0 = "mover_list st"
  let ?ws = "multi_acceptrestoreMove ?W (extract_wf_list ids ?ms0) (extract_els_list ids ?ms0) fl iel"
  let ?ms1 = "store_wf ids ?ws ?ms0"
  let ?es = "multi_acceptRejectMoveKokkos ?P (extract_els_list ids ?ms1) fl iel"
  let ?ms2 = "store_els ids ?es ?ms1"
  have rej: "\<And>k. k < length ids \<Longrightarrow> k < length fl \<Longrightarrow> ids ! k = w \<Longrightarrow> \<not> fl ! k"
  proof
    fix k assume k: "k < length ids" "k < length fl" "ids ! k = w" "fl ! k"
    then have "(w, True) \<in> set (zip ids fl)" by (auto simp: set_zip)
    then have "w \<in> set (map fst (filter snd (zip ids fl)))" by force
    then show False using assms(2) by simp
  qed
  have c1: "committed (?ms1 ! w) = committed (?ms0 ! w)"
  proof (rule store_wf_committed[OF assms(1)])
    fix k assume k: "k < length ids" "k < length ?ws" "ids ! k = w"
    then have kf: "k < length fl" by (simp add: spec_WaveFunction_multi_def)
    then have "?ws ! k = discardMove (extract_wf_list ids ?ms0 ! k)"
      using k rej[of k] by (simp add: spec_WaveFunction_multi_def)
    then show "psiM (?ws ! k) = psiM (wavefunction (?ms0 ! w)) \<and>
        psiMinv (?ws ! k) = psiMinv (wavefunction (?ms0 ! w))"
      using k by (simp add: discardMove_def extract_wf_nth)
  qed
  have l1: "w < length ?ms1" using assms(1) by simp
  have c2: "committed (?ms2 ! w) = committed (?ms1 ! w)"
  proof (rule store_els_committed[OF l1])
    fix k assume k: "k < length ids" "k < length ?es" "ids ! k = w"
    then have kf: "k < length fl" by (simp add: spec_ParticleSet_multi_def)
    then have "?es ! k = spec_rejectMove iel (extract_els_list ids ?ms1 ! k)"
      using k rej[of k] by (simp add: spec_ParticleSet_multi_def)
    then show "R (?es ! k) = R (els (?ms1 ! w))"
      using k by (simp add: spec_rejectMove_def extract_els_nth)
  qed
  have "mover_list (sync_update ?P ?W iel ids fl st) = ?ms2"
    by (simp add: sync_update_def Let_def)
  then show ?thesis using c1 c2 by simp
qed

lemma spec_electron_rejected:
  assumes "w < length (mover_list st)"
    and "w \<notin> set (sync_accepted G (spec_ParticleSet_multi geo) (spec_WaveFunction_multi orbitals)
                    sqrttau accept iel st)"
  shows "committed (mover_list (sync_electron G (spec_ParticleSet_multi geo)
           (spec_WaveFunction_multi orbitals) sqrttau accept iel st) ! w) = committed (mover_list st ! w)"
proof -
  let ?P = "spec_ParticleSet_multi geo"
  let ?W = "spec_WaveFunction_multi orbitals"
  let ?ids = "sync_valid_ids G ?P ?W sqrttau iel st"
  let ?fl = "sync_flags G ?P ?W sqrttau accept iel st"
  let ?st1 = "snd (snd (sync_propose G ?P ?W sqrttau iel st))"
  let ?st2 = "sync_ratio ?P ?W iel ?ids ?st1"
  have l1: "w < length (mover_list ?st1)" using assms(1) by simp
  have l2: "w < length (mover_list ?st2)" using l1 by simp
  have "committed (mover_list (sync_update ?P ?W iel ?ids ?fl ?st2) ! w) =
      committed (mover_list ?st2 ! w)"
    using l2 assms(2) unfolding sync_accepted_def by (rule spec_update_committed)
  also have "\<dots> = committed (mover_list ?st1 ! w)" using l1 by (rule spec_ratio_committed)
  also have "\<dots> = committed (mover_list st ! w)" using assms(1) by (rule spec_propose_committed)
  finally show ?thesis by (simp add: sync_electron_def Let_def)
qed

lemma spec_rejected_funpow:
  assumes "w < length (mover_list st)"
    and "\<forall>k<n. w \<notin> set (sync_accepted G (spec_ParticleSet_multi geo) (spec_WaveFunction_multi orbitals)
            sqrttau accept iel
            (((sync_electron G (spec_ParticleSet_multi geo) (spec_WaveFunction_multi orbitals)
                 sqrttau accept iel) ^^ k) st))"
  shows "length (mover_list (((sync_electron G (spec_ParticleSet_multi geo)
             (spec_WaveFunction_multi orbitals) sqrttau accept iel) ^^ n) st)) = length (mover_list st) \<and>
         committed (mover_list (((sync_electron G (spec_ParticleSet_multi geo)
             (spec_WaveFunction_multi orbitals) sqrttau accept iel) ^^ n) st) ! w) =
         committed (mover_list st ! w)"
  using assms(2)
proof (induction n)
  case 0
  show ?case by simp
next
  case (Suc n)
  let ?f = "sync_electron G (spec_ParticleSet_multi geo) (spec_WaveFunction_multi orbitals)
              sqrttau accept iel"
  have IH: "length (mover_list ((?f ^^ n) st)) = length (mover_list st)"
    "committed (mover_list ((?f ^^ n) st) ! w) = committed (mover_list st ! w)"
    using Suc.IH Suc.prems by simp_all
  have w: "w < length (mover_list ((?f ^^ n) st))" using IH(1) assms(1) by simp
  have "w \<notin> set (sync_accepted G (spec_ParticleSet_multi geo) (spec_WaveFunction_multi orbitals)
            sqrttau accept iel ((?f ^^ n) st))"
    using Suc.prems by simp
  then have "committed (mover_list (?f ((?f ^^ n) st)) ! w) = committed (mover_list ((?f ^^ n) st) ! w)"
    using w by (intro spec_electron_rejected)
  then show ?case using IH by simp
qed



section \<open>The pseudopotential phase\<close>

subsection \<open>The pair lists\<close>














subsection \<open>The calls of the pair loop\<close>





subsection \<open>The walkers across the pair loop\<close>






subsection \<open>An iteration on an empty slot\<close>




section \<open>Claims\<close>


lemma upt_2: "[0..<2] = [0, Suc 0]"
  by (simp add: upt_rec numeral_2_eq_2)

lemmas demo_defs =
  spec_ParticleSet_def spec_DiracDeterminant_def demo_chk_state_def demo_particles_def
  demo_slater_def demo_geometry_def demo_oracle_def spec_makeMoveAndCheck_def spec_rejectMove_def
  spec_acceptMove_def pos_scale_def pos_add_def delta_at_def evaluateRatioAndGradient_def
  commitAcceptedMove_def discardMove_def dot_def scripted_generator_def


text \<open>
  C3. When \<^verbatim>\<open>makeMoveAndCheck\<close> reports an invalid move, the check driver makes no
  further call for that electron: no ratio, no accept, no reject; both determinants and the
  acceptance counter keep their values. In the batched driver a walker whose entry of
  \<^verbatim>\<open>isValid\<close> is 0 is not in the valid list; the ratio evaluation and the update
  calls receive the valid list only, \<^verbatim>\<open>isAccepted\<close> has one entry per walker of the
  valid list, and the walker is left exactly as the proposal left it.
\<close>

theorem C3_invalid_move_skips_ratio:
  "(\<not> fst (makeMoveAndCheck P iel (pos_scale sqrttau (delta_at delta iel))
             (setActive P iel (chk_els s))) \<longrightarrow>
      new_calls (chk_calls s) (chk_calls (chk_electron P D sqrttau accept ur delta iel s)) =
        [SetActive iel, MakeMoveAndCheck iel] \<and>
      determinant_ref (chk_electron P D sqrttau accept ur delta iel s) = determinant_ref s \<and>
      determinant (chk_electron P D sqrttau accept ur delta iel s) = determinant s \<and>
      my_accepted (chk_electron P D sqrttau accept ur delta iel s) = my_accepted s) \<and>
   (fst (snd (sync_propose G Pm W sqrttau' iel' st)) ! w = 0 \<longrightarrow>
      w \<notin> set (sync_valid_ids G Pm W sqrttau' iel' st) \<and>
      new_calls (sync_calls (snd (snd (sync_propose G Pm W sqrttau' iel' st))))
          (sync_calls (sync_electron G Pm W sqrttau' accept' iel' st)) =
        (if sync_valid_ids G Pm W sqrttau' iel' st = [] then []
         else [Multi_evaluate_vgh (sync_valid_ids G Pm W sqrttau' iel' st) iel',
               Multi_ratioGrad (sync_valid_ids G Pm W sqrttau' iel' st) iel']) @
        [Multi_acceptrestoreMove (sync_valid_ids G Pm W sqrttau' iel' st)
           (sync_flags G Pm W sqrttau' accept' iel' st) iel',
         Multi_acceptRejectMoveKokkos (sync_valid_ids G Pm W sqrttau' iel' st)
           (sync_flags G Pm W sqrttau' accept' iel' st) iel'] \<and>
      length (sync_flags G Pm W sqrttau' accept' iel' st) =
        length (sync_valid_ids G Pm W sqrttau' iel' st) \<and>
      mover_list (sync_electron G Pm W sqrttau' accept' iel' st) ! w =
        mover_list (snd (snd (sync_propose G Pm W sqrttau' iel' st))) ! w)"
proof (intro conjI impI)
  assume inv: "\<not> fst (makeMoveAndCheck P iel (pos_scale sqrttau (delta_at delta iel))
             (setActive P iel (chk_els s)))"
  show "new_calls (chk_calls s) (chk_calls (chk_electron P D sqrttau accept ur delta iel s)) =
        [SetActive iel, MakeMoveAndCheck iel]"
    by (simp add: chk_electron_invalid[OF inv] new_calls_def)
  show "determinant_ref (chk_electron P D sqrttau accept ur delta iel s) = determinant_ref s"
    by (simp add: chk_electron_invalid[OF inv])
  show "determinant (chk_electron P D sqrttau accept ur delta iel s) = determinant s"
    by (simp add: chk_electron_invalid[OF inv])
  show "my_accepted (chk_electron P D sqrttau accept ur delta iel s) = my_accepted s"
    by (simp add: chk_electron_invalid[OF inv])
next
  assume inv: "fst (snd (sync_propose G Pm W sqrttau' iel' st)) ! w = 0"
  then show notin: "w \<notin> set (sync_valid_ids G Pm W sqrttau' iel' st)"
    by (simp add: sync_valid_ids_def filtered_list_invalid)
  show "new_calls (sync_calls (snd (snd (sync_propose G Pm W sqrttau' iel' st))))
          (sync_calls (sync_electron G Pm W sqrttau' accept' iel' st)) =
        (if sync_valid_ids G Pm W sqrttau' iel' st = [] then []
         else [Multi_evaluate_vgh (sync_valid_ids G Pm W sqrttau' iel' st) iel',
               Multi_ratioGrad (sync_valid_ids G Pm W sqrttau' iel' st) iel']) @
        [Multi_acceptrestoreMove (sync_valid_ids G Pm W sqrttau' iel' st)
           (sync_flags G Pm W sqrttau' accept' iel' st) iel',
         Multi_acceptRejectMoveKokkos (sync_valid_ids G Pm W sqrttau' iel' st)
           (sync_flags G Pm W sqrttau' accept' iel' st) iel']"
    by (simp add: sync_electron_calls sync_propose_calls new_calls_def)
  show "length (sync_flags G Pm W sqrttau' accept' iel' st) =
        length (sync_valid_ids G Pm W sqrttau' iel' st)"
    by (rule sync_flags_length)
  show "mover_list (sync_electron G Pm W sqrttau' accept' iel' st) ! w =
        mover_list (snd (snd (sync_propose G Pm W sqrttau' iel' st))) ! w"
    using notin by (simp add: sync_electron_def Let_def sync_update_other sync_ratio_other)
qed


lemmas sync_defs = sync_propose_def sync_all_def extract_els_list_def extract_wf_list_def
  extract_spo_list_def store_els_def store_wf_def store_spo_def
  spec_ParticleSet_multi_def spec_WaveFunction_multi_def demo_mover_def demo_sync_state_def

lemma demo_sync_length: "length (mover_list (demo_sync_state d0 d1 x0 x1)) = 2"
  by (simp add: demo_sync_state_def)

theorem C3_invalid_move_skips_ratio_witness:
  "\<not> fst (makeMoveAndCheck (spec_ParticleSet demo_geometry) 0 (pos_scale 1 (delta_at [1, 0, 0] 0))
           (setActive (spec_ParticleSet demo_geometry) 0 (chk_els (demo_chk_state [])))) \<and>
   chk_calls (chk_electron (spec_ParticleSet demo_geometry) (spec_DiracDeterminant demo_oracle id)
      1 (1 / 2) [7 / 10] [1, 0, 0] 0 (demo_chk_state [])) = [SetActive 0, MakeMoveAndCheck 0] \<and>
   determinant (chk_electron (spec_ParticleSet demo_geometry) (spec_DiracDeterminant demo_oracle id)
      1 (1 / 2) [7 / 10] [1, 0, 0] 0 (demo_chk_state [])) = demo_slater \<and>
   fst (snd (sync_propose scripted_generator (spec_ParticleSet_multi demo_geometry)
      (spec_WaveFunction_multi demo_oracle) 1 0
      (demo_sync_state [3 / 10, 7 / 10, 1 / 4, 0, 0, 1 / 4, 0, 0] [] (3 / 4) 0))) ! 0 = 0 \<and>
   sync_valid_ids scripted_generator (spec_ParticleSet_multi demo_geometry)
      (spec_WaveFunction_multi demo_oracle) 1 0
      (demo_sync_state [3 / 10, 7 / 10, 1 / 4, 0, 0, 1 / 4, 0, 0] [] (3 / 4) 0) = [1] \<and>
   length (sync_flags scripted_generator (spec_ParticleSet_multi demo_geometry)
      (spec_WaveFunction_multi demo_oracle) 1 (1 / 2) 0
      (demo_sync_state [3 / 10, 7 / 10, 1 / 4, 0, 0, 1 / 4, 0, 0] [] (3 / 4) 0)) = 1 \<and>
   wavefunction (mover_list (sync_electron scripted_generator (spec_ParticleSet_multi demo_geometry)
      (spec_WaveFunction_multi demo_oracle) 1 (1 / 2) 0
      (demo_sync_state [3 / 10, 7 / 10, 1 / 4, 0, 0, 1 / 4, 0, 0] [] (3 / 4) 0)) ! 0) = demo_slater"
proof -
  let ?P = "spec_ParticleSet demo_geometry"
  let ?D = "spec_DiracDeterminant demo_oracle id"
  let ?Pm = "spec_ParticleSet_multi demo_geometry"
  let ?W = "spec_WaveFunction_multi demo_oracle"
  let ?st = "demo_sync_state [3 / 10, 7 / 10, 1 / 4, 0, 0, 1 / 4, 0, 0] [] (3 / 4) 0"
  have h1: "\<not> fst (makeMoveAndCheck ?P 0 (pos_scale 1 (delta_at [1, 0, 0] 0))
              (setActive ?P 0 (chk_els (demo_chk_state []))))"
    by (simp add: demo_defs)
  have valid: "fst (snd (sync_propose scripted_generator ?Pm ?W 1 0 ?st)) = [0, 1]"
    by (simp add: sync_defs demo_defs upt_2 Let_def)
  have h2: "fst (snd (sync_propose scripted_generator ?Pm ?W 1 0 ?st)) ! 0 = 0"
    by (simp add: valid)
  have ids: "sync_valid_ids scripted_generator ?Pm ?W 1 0 ?st = [1]"
    by (simp add: sync_valid_ids_def valid demo_sync_length filtered_list_def upt_2)
  have after: "wavefunction (mover_list (snd (snd (sync_propose scripted_generator ?Pm ?W 1 0 ?st))) ! 0)
      = demo_slater"
    by (simp add: sync_defs demo_defs upt_2 Let_def)
  note inst = C3_invalid_move_skips_ratio [where P = ?P and D = ?D and sqrttau = 1
      and accept = "1 / 2" and ur = "[7 / 10]" and delta = "[1, 0, 0]" and iel = 0
      and s = "demo_chk_state []" and G = scripted_generator and Pm = ?Pm and W = ?W
      and sqrttau' = 1 and accept' = "1 / 2" and iel' = 0 and st = ?st and w = 0]
  have a: "chk_calls (chk_electron ?P ?D 1 (1 / 2) [7 / 10] [1, 0, 0] 0 (demo_chk_state [])) =
      [SetActive 0, MakeMoveAndCheck 0]"
    using inst [THEN conjunct1] h1 by (simp add: new_calls_def demo_chk_state_def)
  have b: "determinant (chk_electron ?P ?D 1 (1 / 2) [7 / 10] [1, 0, 0] 0 (demo_chk_state [])) =
      demo_slater"
    using inst [THEN conjunct1] h1 by (simp add: demo_chk_state_def)
  have c: "length (sync_flags scripted_generator ?Pm ?W 1 (1 / 2) 0 ?st) = 1"
    using inst [THEN conjunct2] h2 by (simp add: ids)
  have d: "wavefunction (mover_list (sync_electron scripted_generator ?Pm ?W 1 (1 / 2) 0 ?st) ! 0) =
      demo_slater"
    using inst [THEN conjunct2] h2 after by simp
  show ?thesis using h1 h2 ids a b c d by simp
qed





text \<open>
  C1. The check driver accepts a valid move when the draw is above the threshold: with
  threshold 0.5 the draw 0.3 is rejected and the draw 0.7 is accepted, while the batched
  driver accepts 0.3 and rejects 0.7.
\<close>

theorem C1_check_driver_accepts_above_threshold:
  "chk_accept = 1 / 2 \<and>
   \<not> chk_accepts chk_accept [3 / 10, 7 / 10] 0 \<and>
   chk_accepts chk_accept [3 / 10, 7 / 10] 1 \<and>
   chk_calls (chk_electron (spec_ParticleSet demo_geometry) (spec_DiracDeterminant demo_oracle id)
      1 chk_accept [3 / 10, 7 / 10] [0, 0, 0, 0, 0, 0] 0 (demo_chk_state [])) =
     [SetActive 0, MakeMoveAndCheck 0, Ratio Reference 0, Ratio Device 0, RejectMove 0] \<and>
   chk_calls (chk_electron (spec_ParticleSet demo_geometry) (spec_DiracDeterminant demo_oracle id)
      1 chk_accept [3 / 10, 7 / 10] [0, 0, 0, 0, 0, 0] 1 (demo_chk_state [])) =
     [SetActive 1, MakeMoveAndCheck 1, Ratio Reference 1, Ratio Device 1,
      AcceptMove_els 1, AcceptMove_det Reference 1, AcceptMove_det Device 1] \<and>
   sync_isAccepted (1 / 2) [3 / 10, 7 / 10] 2 = [True, False]"
  by (simp add: chk_accept_def chk_accepts_def chk_electron_def sync_isAccepted_def upt_2 Let_def
      demo_defs)

text \<open>
  C7. With no option the drivers hold seed 11, 5 steps, 1 substep, \<open>tau = 2\<close> and the
  threshold 0.5. The seed is not read: the generator of the check driver is made from
  \<^verbatim>\<open>myPrimes[ip]\<close>, and a run with any seed given by \<^verbatim>\<open>-s\<close> is the run with no
  option, in both drivers.
\<close>

theorem C7_seed_option_is_not_read:
  "chk_getopt [] chk_defaults = Inr chk_defaults \<and>
   chk_iseed chk_defaults = 11 \<and> chk_nsteps chk_defaults = 5 \<and> chk_nsubsteps chk_defaults = 1 \<and>
   chk_tau = 2 \<and> chk_accept = 1 / 2 \<and>
   sync_getopt [] sync_defaults = Inr sync_defaults \<and>
   sync_iseed sync_defaults = 11 \<and> sync_nsteps sync_defaults = 5 \<and>
   sync_nsubsteps sync_defaults = 1 \<and> sync_tau = 2 \<and> sync_accept sync_defaults = 1 / 2 \<and>
   random_th (chk_initial myPrimes new_generator setup ip chk_defaults) =
     fst (setup (1, 1, 1) (new_generator (myPrimes ip))) \<and>
   chk_main G P D myPrimes new_generator setup ip [Chk_s seed] =
     chk_main G P D myPrimes new_generator setup ip [] \<and>
   sync_main G' Pm W E myPrimes' new_mover evaluateLog count_ions [Sync_s seed'] =
     sync_main G' Pm W E myPrimes' new_mover evaluateLog count_ions []"
  by (simp add: chk_defaults_def sync_defaults_def chk_tau_def sync_tau_def chk_accept_def
      chk_initial_def chk_main_def sync_main_def sync_initial_def Let_def)













text \<open>
  C4, with the particle set and the Slater matrix modelled from the spec. In the check
  driver, any number of consecutive proposals for one electron that are all rejected
  (invalid, or valid and not accepted) leave the positions, both matrices and both inverses
  as they were. In the batched driver, a walker that is not accepted in any of \<open>n\<close>
  consecutive steps for one electron keeps its positions, its matrix and its inverse.
\<close>

theorem C4_rejected_proposals_change_nothing:
  "((\<forall>delta\<in>set deltas.
       \<not> (fst (spec_makeMoveAndCheck geo iel (pos_scale sqrttau (delta_at delta iel)) (chk_els s)) \<and>
          chk_accepts accept ur iel)) \<longrightarrow>
    chk_committed (fold (\<lambda>delta. chk_electron (spec_ParticleSet geo)
        (spec_DiracDeterminant orbitals invert) sqrttau accept ur delta iel) deltas s) =
      chk_committed s) \<and>
   (w < length (mover_list st) \<and>
    (\<forall>k<n. w \<notin> set (sync_accepted G (spec_ParticleSet_multi geo') (spec_WaveFunction_multi orbitals')
        sqrttau' accept' iel'
        (((sync_electron G (spec_ParticleSet_multi geo') (spec_WaveFunction_multi orbitals')
             sqrttau' accept' iel') ^^ k) st))) \<longrightarrow>
    committed (mover_list (((sync_electron G (spec_ParticleSet_multi geo')
        (spec_WaveFunction_multi orbitals') sqrttau' accept' iel') ^^ n) st) ! w) =
      committed (mover_list st ! w))"
  using chk_rejected_fold[of deltas geo iel sqrttau s accept ur orbitals invert]
    spec_rejected_funpow[of w st n G geo' orbitals' sqrttau' accept' iel']
  by blast

lemma demo_step_rejected:
  "sync_electron scripted_generator (spec_ParticleSet_multi demo_geometry)
      (spec_WaveFunction_multi demo_oracle) 1 (1 / 2) 0
      (demo_sync_state [9 / 10, 9 / 10, 1 / 4, 0, 0, 1 / 4, 0, 0,
                        9 / 10, 9 / 10, 1 / 4, 0, 0, 1 / 4, 0, 0] [] 0 0) =
   \<lparr>mover_list =
      [\<lparr>rng = [9 / 10, 9 / 10, 1 / 4, 0, 0, 1 / 4, 0, 0],
        els = \<lparr>R = [(0, 0, 0), (1 / 2, 0, 0)], activePtcl = - 1, activePos = (1 / 4, 0, 0),
               dist_ei = [[0], [1 / 2]]\<rparr>,
        wavefunction = \<lparr>psiM = [[1, 0], [0, 1]], psiMinv = [[1, 0], [0, 1]], psiV = [],
                        curRatio = 1\<rparr>,
        spo_vgh = [1, 1 / 4], nlpp = [(1, 0, 0)]\<rparr>,
       \<lparr>rng = [],
        els = \<lparr>R = [(0, 0, 0), (1 / 2, 0, 0)], activePtcl = - 1, activePos = (1 / 4, 0, 0),
               dist_ei = [[0], [1 / 2]]\<rparr>,
        wavefunction = \<lparr>psiM = [[1, 0], [0, 1]], psiMinv = [[1, 0], [0, 1]], psiV = [],
                        curRatio = 1\<rparr>,
        spo_vgh = [1, 1 / 4], nlpp = [(1, 0, 0)]\<rparr>],
    sync_calls =
      [Multi_setActiveKokkos 0, Multi_evalGrad 0, Multi_makeMoveAndCheckKokkos 0,
       Multi_evaluate_vgh [0, 1] 0, Multi_ratioGrad [0, 1] 0,
       Multi_acceptrestoreMove [0, 1] [False, False] 0,
       Multi_acceptRejectMoveKokkos [0, 1] [False, False] 0]\<rparr>"
  by (simp add: sync_electron_def sync_update_def sync_ratio_def sync_valid_ids_def sync_flags_def
      sync_isAccepted_def filtered_list_def sync_defs demo_defs upt_2 Let_def)

lemma demo_step_accepted_0:
  "sync_accepted scripted_generator (spec_ParticleSet_multi demo_geometry)
      (spec_WaveFunction_multi demo_oracle) 1 (1 / 2) 0
      (demo_sync_state [9 / 10, 9 / 10, 1 / 4, 0, 0, 1 / 4, 0, 0,
                        9 / 10, 9 / 10, 1 / 4, 0, 0, 1 / 4, 0, 0] [] 0 0) = []"
  by (simp add: sync_accepted_def sync_valid_ids_def sync_flags_def sync_isAccepted_def
      filtered_list_def sync_defs demo_defs upt_2 Let_def)

lemma demo_step_accepted_1:
  "sync_accepted scripted_generator (spec_ParticleSet_multi demo_geometry)
      (spec_WaveFunction_multi demo_oracle) 1 (1 / 2) 0
      (sync_electron scripted_generator (spec_ParticleSet_multi demo_geometry)
        (spec_WaveFunction_multi demo_oracle) 1 (1 / 2) 0
        (demo_sync_state [9 / 10, 9 / 10, 1 / 4, 0, 0, 1 / 4, 0, 0,
                          9 / 10, 9 / 10, 1 / 4, 0, 0, 1 / 4, 0, 0] [] 0 0)) = []"
  unfolding demo_step_rejected
  by (simp add: sync_accepted_def sync_valid_ids_def sync_flags_def sync_isAccepted_def
      filtered_list_def sync_defs demo_defs upt_2 Let_def)

theorem C4_rejected_proposals_change_nothing_witness:
  "\<not> (fst (spec_makeMoveAndCheck demo_geometry 0
             (pos_scale 1 (delta_at [0, 0, 0, 0, 0, 0] 0)) (chk_els (demo_chk_state []))) \<and>
      chk_accepts (1 / 2) [3 / 10, 7 / 10] 0) \<and>
   \<not> (fst (spec_makeMoveAndCheck demo_geometry 0
             (pos_scale 1 (delta_at [1, 0, 0, 0, 0, 0] 0)) (chk_els (demo_chk_state []))) \<and>
      chk_accepts (1 / 2) [3 / 10, 7 / 10] 0) \<and>
   chk_committed (fold (\<lambda>delta. chk_electron (spec_ParticleSet demo_geometry)
        (spec_DiracDeterminant demo_oracle id) 1 (1 / 2) [3 / 10, 7 / 10] delta 0)
        [[0, 0, 0, 0, 0, 0], [1, 0, 0, 0, 0, 0]] (demo_chk_state [])) =
     ([(0, 0, 0), (1 / 2, 0, 0)], [[1, 0], [0, 1]], [[1, 0], [0, 1]], [[1, 0], [0, 1]],
      [[1, 0], [0, 1]]) \<and>
   committed (mover_list (((sync_electron scripted_generator (spec_ParticleSet_multi demo_geometry)
        (spec_WaveFunction_multi demo_oracle) 1 (1 / 2) 0) ^^ 2)
        (demo_sync_state [9 / 10, 9 / 10, 1 / 4, 0, 0, 1 / 4, 0, 0,
                          9 / 10, 9 / 10, 1 / 4, 0, 0, 1 / 4, 0, 0] [] 0 0)) ! 1) =
     ([(0, 0, 0), (1 / 2, 0, 0)], [[1, 0], [0, 1]], [[1, 0], [0, 1]])"
proof -
  let ?G = scripted_generator
  let ?P = "spec_ParticleSet_multi demo_geometry"
  let ?W = "spec_WaveFunction_multi demo_oracle"
  let ?st = "demo_sync_state [9 / 10, 9 / 10, 1 / 4, 0, 0, 1 / 4, 0, 0,
                              9 / 10, 9 / 10, 1 / 4, 0, 0, 1 / 4, 0, 0] [] 0 0"
  let ?f = "sync_electron ?G ?P ?W 1 (1 / 2) 0"
  have h1: "\<forall>delta\<in>set [[0, 0, 0, 0, 0, 0], [1, 0, 0, 0, 0, 0]].
       \<not> (fst (spec_makeMoveAndCheck demo_geometry 0 (pos_scale 1 (delta_at delta 0))
                 (chk_els (demo_chk_state []))) \<and>
          chk_accepts (1 / 2) [3 / 10, 7 / 10] 0)"
    by (simp add: chk_accepts_def)
  have h2: "1 < length (mover_list ?st)" by (simp add: demo_sync_length)
  have h3: "\<forall>k<2. 1 \<notin> set (sync_accepted ?G ?P ?W 1 (1 / 2) 0 ((?f ^^ k) ?st))"
  proof (intro allI impI)
    fix k :: nat assume "k < 2"
    then have "k = 0 \<or> k = 1" by auto
    then show "1 \<notin> set (sync_accepted ?G ?P ?W 1 (1 / 2) 0 ((?f ^^ k) ?st))"
      using demo_step_accepted_0 demo_step_accepted_1 by auto
  qed
  note inst = C4_rejected_proposals_change_nothing [where deltas = "[[0, 0, 0, 0, 0, 0], [1, 0, 0, 0, 0, 0]]"
      and geo = demo_geometry and iel = 0 and sqrttau = 1 and s = "demo_chk_state []"
      and accept = "1 / 2" and ur = "[3 / 10, 7 / 10]" and orbitals = demo_oracle and invert = id
      and w = 1 and st = ?st and n = 2 and G = ?G and geo' = demo_geometry
      and orbitals' = demo_oracle and sqrttau' = 1 and accept' = "1 / 2" and iel' = 0]
  have start: "chk_committed (demo_chk_state []) =
      ([(0, 0, 0), (1 / 2, 0, 0)], [[1, 0], [0, 1]], [[1, 0], [0, 1]], [[1, 0], [0, 1]],
       [[1, 0], [0, 1]])"
    by (simp add: chk_committed_def demo_defs)
  have start': "committed (mover_list ?st ! 1) =
      ([(0, 0, 0), (1 / 2, 0, 0)], [[1, 0], [0, 1]], [[1, 0], [0, 1]])"
    by (simp add: committed_def demo_sync_state_def demo_mover_def demo_defs)
  have a: "chk_committed (fold (\<lambda>delta. chk_electron (spec_ParticleSet demo_geometry)
        (spec_DiracDeterminant demo_oracle id) 1 (1 / 2) [3 / 10, 7 / 10] delta 0)
        [[0, 0, 0, 0, 0, 0], [1, 0, 0, 0, 0, 0]] (demo_chk_state [])) =
     ([(0, 0, 0), (1 / 2, 0, 0)], [[1, 0], [0, 1]], [[1, 0], [0, 1]], [[1, 0], [0, 1]],
      [[1, 0], [0, 1]])"
    using inst [THEN conjunct1] h1 start by simp
  have b: "committed (mover_list ((?f ^^ 2) ?st) ! 1) =
     ([(0, 0, 0), (1 / 2, 0, 0)], [[1, 0], [0, 1]], [[1, 0], [0, 1]])"
    using inst [THEN conjunct2] h2 h3 start' by simp
  show ?thesis using h1 a b by simp
qed













end
